theory Spec2Isabelle
  imports Main "HOL-Library.Word"
begin

section \<open>JSON values and the JavaScript operations the handlers apply to them\<close>

text \<open>
  A handler reads its input with \<^verbatim>\<open>await req.json()\<close>, so every field of the body is
  an arbitrary JSON value. \<open>JUndefined\<close> stands for an absent key. A number of
  JavaScript is a double: \<open>JNum w\<close> is the integral number \<open>sint w\<close>, from \<open>- 2 ^ 53\<close>
  to \<open>2 ^ 53 - 1\<close>, which a double holds exactly and \<^verbatim>\<open>String\<close> prints in plain
  digits (the number \<open>-0\<close> behaves as \<open>0\<close> wherever a handler looks at it).
  \<open>JOther s\<close> is any other value (a fractional or larger number, an array, an object),
  all of which are truthy and have no string methods; \<open>s\<close> is the text that
  \<^verbatim>\<open>String(v)\<close> gives for it. A string is the list of the bytes of its UTF-8 form.
\<close>

datatype jsval =
  JUndefined | JNull | JBool bool | JNum "54 word" | JStr string | JOther string

fun truthy :: "jsval \<Rightarrow> bool" where
  "truthy JUndefined = False"
| "truthy JNull = False"
| "truthy (JBool b) = b"
| "truthy (JNum n) = (n \<noteq> 0)"
| "truthy (JStr s) = (s \<noteq> [])"
| "truthy (JOther s) = True"

text \<open>\<^verbatim>\<open>a || b\<close> on JSON values.\<close>

definition js_or :: "jsval \<Rightarrow> jsval \<Rightarrow> jsval" where
  "js_or a b = (if truthy a then a else b)"

text \<open>
  \<^verbatim>\<open>String(v)\<close>, which is also the text a text column keeps of a JSON scalar. (For an
  array or an object the two differ; the model uses the text that \<open>JOther\<close> carries
  for both.)
\<close>

fun show_nat :: "nat \<Rightarrow> string" where
  "show_nat n =
     (if n < 10 then [char_of (48 + n)]
      else show_nat (n div 10) @ [char_of (48 + n mod 10)])"

definition show_int :: "int \<Rightarrow> string" where
  "show_int i = (if i < 0 then CHR ''-'' # show_nat (nat (- i)) else show_nat (nat i))"

fun js_String :: "jsval \<Rightarrow> string" where
  "js_String JUndefined = ''undefined''"
| "js_String JNull = ''null''"
| "js_String (JBool b) = (if b then ''true'' else ''false'')"
| "js_String (JNum n) = show_int (sint n)"
| "js_String (JStr s) = s"
| "js_String (JOther s) = s"

text \<open>
  What a \<^verbatim>\<open>try\<close> block can throw. \<open>SyntaxError\<close> and \<open>TypeError\<close> are instances of
  \<^verbatim>\<open>Error\<close>; \<open>PostgrestError\<close> is the error object the datastore client hands back
  in \<^verbatim>\<open>{ data, error }\<close> and the handler rethrows.
\<close>

datatype thrown = SyntaxError string | TypeError string | PostgrestError string

text \<open>
  \<^verbatim>\<open>String.prototype.trim\<close> removes the white space and the line terminators of
  ECMAScript from both ends: U+0009 to U+000D, U+0020, U+00A0, U+1680, U+2000 to U+200A,
  U+2028, U+2029, U+202F, U+205F, U+3000 and U+FEFF, here in their UTF-8 forms. In
  well-formed UTF-8 such a sequence of bytes at the head or at the end of a string is
  that character and no part of another.
\<close>

definition ws_codes :: "string list" where
  "ws_codes =
     [[CHR 0x09], [CHR 0x0A], [CHR 0x0B], [CHR 0x0C], [CHR 0x0D], [CHR 0x20],
      [CHR 0xC2, CHR 0xA0],
      [CHR 0xE1, CHR 0x9A, CHR 0x80],
      [CHR 0xE2, CHR 0x80, CHR 0x80], [CHR 0xE2, CHR 0x80, CHR 0x81],
      [CHR 0xE2, CHR 0x80, CHR 0x82], [CHR 0xE2, CHR 0x80, CHR 0x83],
      [CHR 0xE2, CHR 0x80, CHR 0x84], [CHR 0xE2, CHR 0x80, CHR 0x85],
      [CHR 0xE2, CHR 0x80, CHR 0x86], [CHR 0xE2, CHR 0x80, CHR 0x87],
      [CHR 0xE2, CHR 0x80, CHR 0x88], [CHR 0xE2, CHR 0x80, CHR 0x89],
      [CHR 0xE2, CHR 0x80, CHR 0x8A],
      [CHR 0xE2, CHR 0x80, CHR 0xA8], [CHR 0xE2, CHR 0x80, CHR 0xA9],
      [CHR 0xE2, CHR 0x80, CHR 0xAF],
      [CHR 0xE2, CHR 0x81, CHR 0x9F],
      [CHR 0xE3, CHR 0x80, CHR 0x80],
      [CHR 0xEF, CHR 0xBB, CHR 0xBF]]"

definition starts_with :: "string \<Rightarrow> string \<Rightarrow> bool" where
  "starts_with s w = (w \<noteq> [] \<and> take (length w) s = w)"

text \<open>Removing, as long as there is one, the code at the head of the string.\<close>

function strip :: "string list \<Rightarrow> string \<Rightarrow> string" where
  "strip cs s =
     (case find (starts_with s) cs of
        None \<Rightarrow> s
      | Some w \<Rightarrow> strip cs (drop (length w) s))"
  by pat_completeness auto
termination
proof (relation "measure (\<lambda>(cs, s). length s)")
  show "wf (measure (\<lambda>(cs, s). length s))"
    by simp
next
  fix cs :: "string list" and s w :: string
  assume "find (starts_with s) cs = Some w"
  then have "starts_with s w"
    by (auto simp: find_Some_iff)
  then have "w \<noteq> []" and "length w \<le> length s"
    by (auto simp: starts_with_def dest: arg_cong[where f = length])
  then show "((cs, drop (length w) s), (cs, s)) \<in> measure (\<lambda>(cs, s). length s)"
    by (cases w) auto
qed

declare strip.simps [simp del]

definition trimStart :: "string \<Rightarrow> string" where
  "trimStart s = strip ws_codes s"

definition trimEnd :: "string \<Rightarrow> string" where
  "trimEnd s = rev (strip (map rev ws_codes) (rev s))"

definition trim :: "string \<Rightarrow> string" where
  "trim s = trimEnd (trimStart s)"

text \<open>
  \<^verbatim>\<open>v?.trim()\<close>, for the variable named \<open>f\<close>: undefined for an absent or null value,
  the trimmed string for a string, and a TypeError for anything else (the property
  \<^verbatim>\<open>trim\<close> is undefined there and is called).
\<close>

fun opt_trim :: "string \<Rightarrow> jsval \<Rightarrow> thrown + jsval" where
  "opt_trim f JUndefined = Inr JUndefined"
| "opt_trim f JNull = Inr JUndefined"
| "opt_trim f (JStr s) = Inr (JStr (trim s))"
| "opt_trim f v = Inl (TypeError (f @ ''?.trim is not a function''))"

text \<open>
  \<^verbatim>\<open>v.toLowerCase()\<close> on the ASCII letters, a TypeError for a value that is not a
  string.
\<close>

definition to_lower :: "char \<Rightarrow> char" where
  "to_lower c =
     (let n = (of_char c :: nat) in if 65 \<le> n \<and> n \<le> 90 then char_of (n + 32) else c)"

fun toLowerCase :: "jsval \<Rightarrow> thrown + string" where
  "toLowerCase (JStr s) = Inr (map to_lower s)"
| "toLowerCase v = Inl (TypeError ''username.toLowerCase is not a function'')"

text \<open>\<^verbatim>\<open>v?.trim() || null\<close>, the value written to a nullable text column.\<close>

definition trim_or_null :: "string \<Rightarrow> jsval \<Rightarrow> thrown + string option" where
  "trim_or_null f v =
     (case opt_trim f v of
        Inl e \<Rightarrow> Inl e
      | Inr (JStr s) \<Rightarrow> Inr (if s = [] then None else Some s)
      | Inr _ \<Rightarrow> Inr None)"

section \<open>The datastore\<close>

text \<open>
  Tables are lists of rows. The table definitions are not part of the sources; the
  columns are the ones the handlers and the frontend types (\<^verbatim>\<open>Job\<close>,
  \<^verbatim>\<open>JobApplication\<close> in \<^verbatim>\<open>useJobs.ts\<close>) name. Instants are natural numbers.
\<close>

type_synonym timestamp = nat

record job =
  j_id :: string
  creator_id :: string
  title :: string
  description :: string
  conditions :: "string option"
  location :: "string option"
  max_applications :: "int option"
  expires_at :: "timestamp option"
  status :: string
  approval_status :: "string option"
  created_at :: timestamp
  updated_at :: timestamp

record job_application =
  a_id :: string
  a_job_id :: string
  applicant_id :: string
  message :: "string option"
  education_qualification :: "string option"
  experience_details :: "string option"
  creator_reply :: "string option"
  replied_at :: "timestamp option"
  a_created_at :: timestamp

record profile =
  p_id :: string
  full_name :: "string option"
  username :: "string option"
  avatar_url :: "string option"
  mobile_number :: "string option"
  email :: "string option"
  date_of_birth :: "string option"

record user_session =
  session_token :: string
  s_user_id :: string
  s_expires_at :: timestamp
  is_active :: bool

record user_role =
  r_user_id :: string
  role :: string

record business =
  biz_id :: string
  owner_id :: string
  biz_name :: string
  biz_description :: "string option"
  category :: string
  biz_location :: "string option"
  logo_url :: "string option"
  cover_image_url :: "string option"
  website_url :: "string option"
  instagram_link :: "string option"
  youtube_link :: "string option"
  biz_approval_status :: "string option"

record post =
  post_id :: string
  post_user_id :: string
  content :: "string option"
  image_url :: "string option"
  youtube_url :: "string option"

record user_credential =
  c_id :: string
  c_mobile_number :: string
  password_hash :: string

record db =
  jobs :: "job list"
  job_applications :: "job_application list"
  profiles :: "profile list"
  user_sessions :: "user_session list"
  user_roles :: "user_role list"
  businesses :: "business list"
  posts :: "post list"
  user_credentials :: "user_credential list"

text \<open>
  \<^verbatim>\<open>.single()\<close> answers with the row when exactly one row matches and with an error
  otherwise; \<^verbatim>\<open>.maybeSingle()\<close> also accepts no row, with null data.
\<close>

fun single :: "'a list \<Rightarrow> string + 'a" where
  "single [x] = Inr x"
| "single xs = Inl ''JSON object requested, multiple (or no) rows returned''"

fun maybeSingle :: "'a list \<Rightarrow> string + 'a option" where
  "maybeSingle [] = Inr None"
| "maybeSingle [x] = Inr (Some x)"
| "maybeSingle xs = Inl ''JSON object requested, multiple (or no) rows returned''"

text \<open>\<^verbatim>\<open>const { data } = await ...\<close>: the data, null on an error.\<close>

definition data_single :: "'a list \<Rightarrow> 'a option" where
  "data_single xs = (case single xs of Inl e \<Rightarrow> None | Inr x \<Rightarrow> Some x)"

definition data_maybeSingle :: "'a list \<Rightarrow> 'a option" where
  "data_maybeSingle xs = (case maybeSingle xs of Inl e \<Rightarrow> None | Inr r \<Rightarrow> r)"

text \<open>
  \<^verbatim>\<open>.eq(column, v)\<close> on an id column with a JSON value from the body. The client
  writes the filter as \<^verbatim>\<open>eq.${v}\<close>, with the text \<^verbatim>\<open>String(v)\<close>; ids are texts, and a
  row matches when its id is that text.
\<close>

definition eq_id :: "string \<Rightarrow> jsval \<Rightarrow> bool" where
  "eq_id i v = (js_String v = i)"

text \<open>\<^verbatim>\<open>.order(column, { ascending: false })\<close>.\<close>

definition order_desc :: "('a \<Rightarrow> timestamp) \<Rightarrow> 'a list \<Rightarrow> 'a list" where
  "order_desc f xs = rev (sort_key f xs)"

text \<open>
  The embedded row of a foreign key (\<^verbatim>\<open>profiles:creator_id (...)\<close>,
  \<^verbatim>\<open>jobs:job_id (...)\<close>): the row of the other table with that id, if any.
\<close>

definition profile_of :: "db \<Rightarrow> string \<Rightarrow> profile option" where
  "profile_of d u = find (\<lambda>p. p_id p = u) (profiles d)"

definition job_of :: "db \<Rightarrow> string \<Rightarrow> job option" where
  "job_of d i = find (\<lambda>j. j_id j = i) (jobs d)"

text \<open>
  The select list \<^verbatim>\<open>(id, full_name, username, avatar_url)\<close> leaves the contact columns
  out; \<^verbatim>\<open>(id, full_name, username, avatar_url, mobile_number, email)\<close> keeps them.
\<close>

definition public_card :: "profile \<Rightarrow> profile" where
  "public_card p = p\<lparr>mobile_number := None, email := None, date_of_birth := None\<rparr>"

definition contact_card :: "profile \<Rightarrow> profile" where
  "contact_card p = p\<lparr>date_of_birth := None\<rparr>"

section \<open>Requests, responses and the environment of one request\<close>

record body =
  req_action :: jsval
  req_job_id :: jsval
  req_title :: jsval
  req_description :: jsval
  req_conditions :: jsval
  req_location :: jsval
  req_max_applications :: jsval
  req_expires_at :: jsval
  req_status :: jsval
  req_message :: jsval
  req_education_qualification :: jsval
  req_experience_details :: jsval
  req_application_id :: jsval
  req_reply_type :: jsval

text \<open>
  What \<^verbatim>\<open>await req.json()\<close> gives: a rejection with a SyntaxError when the body is
  not JSON, the value null (destructuring it throws a TypeError), or a value whose
  properties can be read.
\<close>

datatype 'b json_body = Unparsable string | JsonNull | Json 'b

record 'b request =
  http_method :: string
  x_session_token :: "string option"
  json :: "'b json_body"

record job_view =
  jv_job :: job
  jv_profiles :: "profile option"
  application_count :: nat
  has_applied :: "bool option"

record application_view =
  av_application :: job_application
  av_job :: "job option"
  av_profile :: "profile option"

datatype payload =
    NoBody
  | Error string
  | Jobs "job_view list"
  | JobDetail job_view "application_view list"
  | JobCreated job string
  | Success
  | SuccessMessage string
  | Applications "application_view list"
  | IsBusinessOwner bool
  | PostCreated post
  | BusinessCreated business
  | AdminUser profile "string list"
  | SignedUp string jsval jsval string
  | SignedIn string jsval "profile option" string "string list"

datatype response = Response (status_code: nat) (payload: payload)

text \<open>
  The inputs of one request that are not in the sources: the readings of
  \<^verbatim>\<open>new Date()\<close> in the order the handler takes them, the datastore's own clock and the
  id it gives a new row, the stored procedure \<^verbatim>\<open>validate_session\<close>, the datastore's
  reading of a timestamp text, whether the client's error object is an instance of
  \<^verbatim>\<open>Error\<close>, the digest behind \<^verbatim>\<open>hashPassword\<close> and the random token of
  \<^verbatim>\<open>generateSessionToken\<close>. The constraints of the tables are not in the sources
  either: \<open>rejects_insert e t\<close> says that the datastore refuses the row this request
  inserts into table \<open>t\<close>.
\<close>

record env =
  clock :: "nat \<Rightarrow> timestamp"
  db_now :: timestamp
  new_id :: string
  validate_session :: "string \<Rightarrow> string option"
  parse_time :: "string \<Rightarrow> timestamp option"
  postgrest_error_is_Error :: bool
  rejects_insert :: "string \<Rightarrow> bool"
  sha256_hex :: "string \<Rightarrow> string"
  session_token_bytes :: string

type_synonym outcome = "(thrown + response) \<times> db"

definition respond :: "nat \<Rightarrow> payload \<Rightarrow> db \<Rightarrow> outcome" where
  "respond c p d = (Inr (Response c p), d)"

definition throw :: "thrown \<Rightarrow> db \<Rightarrow> outcome" where
  "throw e d = (Inl e, d)"

text \<open>\<^verbatim>\<open>userId\<close> is a string or null; \<^verbatim>\<open>userId && ...\<close> and \<^verbatim>\<open>!userId\<close> test it.\<close>

definition present :: "string option \<Rightarrow> bool" where
  "present u = (case u of None \<Rightarrow> False | Some s \<Rightarrow> s \<noteq> [])"

text \<open>
  The steps of a handler: an expression that may throw, a datastore call followed by
  \<^verbatim>\<open>if (error) throw error\<close>, and the guard \<^verbatim>\<open>if (!userId) return 401\<close>.
\<close>

definition try_js :: "thrown + 'a \<Rightarrow> ('a \<Rightarrow> db \<Rightarrow> outcome) \<Rightarrow> db \<Rightarrow> outcome" where
  "try_js r k d = (case r of Inl err \<Rightarrow> throw err d | Inr x \<Rightarrow> k x d)"

definition try_db :: "string + 'a \<Rightarrow> ('a \<Rightarrow> db \<Rightarrow> outcome) \<Rightarrow> db \<Rightarrow> outcome" where
  "try_db r k d = (case r of Inl err \<Rightarrow> throw (PostgrestError err) d | Inr x \<Rightarrow> k x d)"

definition require_user :: "string option \<Rightarrow> (string \<Rightarrow> db \<Rightarrow> outcome) \<Rightarrow> db \<Rightarrow> outcome" where
  "require_user userId k d =
     (case userId of
        None \<Rightarrow> respond 401 (Error ''Authentication required'') d
      | Some u \<Rightarrow>
          if u = [] then respond 401 (Error ''Authentication required'') d else k u d)"

section \<open>The handler \<^verbatim>\<open>manage-jobs\<close>\<close>

text \<open>
  The datastore of the model carries out every statement as written. A read of several
  rows, an update and a delete always succeed, so the \<^verbatim>\<open>if (error) throw error\<close>
  that follows one of them has no branch here. An error comes from \<^verbatim>\<open>.single()\<close> on
  a row count other than one, from a value that does not fit its column, and from an
  insert that the datastore refuses.
\<close>

subsection \<open>Visibility and the closing of expired jobs\<close>

text \<open>The filter of \<^verbatim>\<open>list\<close>, with the source's two tests in order.\<close>

definition visible :: "string option \<Rightarrow> job \<Rightarrow> bool" where
  "visible userId j =
     (if present userId \<and> Some (creator_id j) = userId then True
      else if approval_status j = Some ''approved'' \<and> status j = ''open'' then True
      else False)"

text \<open>
  \<^verbatim>\<open>.eq("status", "open").lt("expires_at", t).not("expires_at", "is", null)\<close>
\<close>

definition expired :: "timestamp \<Rightarrow> job \<Rightarrow> bool" where
  "expired t j =
     (status j = ''open'' \<and> (case expires_at j of None \<Rightarrow> False | Some e \<Rightarrow> e < t))"

text \<open>
  The update that opens \<^verbatim>\<open>list\<close>. The object with \<^verbatim>\<open>updated_at\<close> is built first
  (reading 0 of the clock), the bound of \<^verbatim>\<open>.lt\<close> second (reading 1).
\<close>

definition close_job :: "env \<Rightarrow> job \<Rightarrow> job" where
  "close_job e j =
     (if expired (clock e 1) j then j\<lparr>status := ''closed'', updated_at := clock e 0\<rparr> else j)"

definition close_expired :: "env \<Rightarrow> db \<Rightarrow> db" where
  "close_expired e d = d\<lparr>jobs := map (close_job e) (jobs d)\<rparr>"

subsection \<open>The rows that \<^verbatim>\<open>list\<close>, \<^verbatim>\<open>my_jobs\<close> and \<^verbatim>\<open>get\<close> return\<close>

definition count_applications :: "db \<Rightarrow> string \<Rightarrow> nat" where
  "count_applications d i = length (filter (\<lambda>a. a_job_id a = i) (job_applications d))"

definition hasApplied :: "db \<Rightarrow> string option \<Rightarrow> string \<Rightarrow> bool" where
  "hasApplied d userId i =
     (if present userId
      then data_maybeSingle
             (filter (\<lambda>a. a_job_id a = i \<and> Some (applicant_id a) = userId) (job_applications d))
           \<noteq> None
      else False)"

definition job_with_counts :: "db \<Rightarrow> string option \<Rightarrow> job \<Rightarrow> job_view" where
  "job_with_counts d userId j =
     \<lparr>jv_job = j,
      jv_profiles = map_option public_card (profile_of d (creator_id j)),
      application_count = count_applications d (j_id j),
      has_applied = Some (hasApplied d userId (j_id j))\<rparr>"

definition job_with_count :: "db \<Rightarrow> job \<Rightarrow> job_view" where
  "job_with_count d j =
     \<lparr>jv_job = j,
      jv_profiles = map_option public_card (profile_of d (creator_id j)),
      application_count = count_applications d (j_id j),
      has_applied = None\<rparr>"

definition applicant_view :: "db \<Rightarrow> job_application \<Rightarrow> application_view" where
  "applicant_view d a =
     \<lparr>av_application = a,
      av_job = None,
      av_profile = map_option contact_card (profile_of d (applicant_id a))\<rparr>"

subsection \<open>\<^verbatim>\<open>list\<close>, \<^verbatim>\<open>my_jobs\<close>, \<^verbatim>\<open>get\<close>\<close>

definition action_list :: "env \<Rightarrow> string option \<Rightarrow> db \<Rightarrow> outcome" where
  "action_list e userId d =
     (let d1 = close_expired e d;
          allJobs = order_desc created_at (jobs d1);
          filteredJobs = filter (visible userId) allJobs;
          jobsWithCounts = map (job_with_counts d1 userId) filteredJobs
      in respond 200 (Jobs jobsWithCounts) d1)"

definition action_my_jobs :: "string option \<Rightarrow> db \<Rightarrow> outcome" where
  "action_my_jobs userId d =
     (if \<not> present userId then respond 401 (Error ''Authentication required'') d
      else
        let rows = order_desc created_at (filter (\<lambda>j. Some (creator_id j) = userId) (jobs d))
        in respond 200 (Jobs (map (job_with_count d) rows)) d)"

definition canView :: "string option \<Rightarrow> job \<Rightarrow> bool" where
  "canView userId j =
     ((present userId \<and> Some (creator_id j) = userId)
      \<or> (approval_status j = Some ''approved'' \<and> status j = ''open''))"

definition action_get :: "string option \<Rightarrow> body \<Rightarrow> db \<Rightarrow> outcome" where
  "action_get userId b =
     (if \<not> truthy (req_job_id b) then respond 400 (Error ''Job ID required'')
      else (\<lambda>d.
        try_db (single (filter (\<lambda>j. eq_id (j_id j) (req_job_id b)) (jobs d))) (\<lambda>j.
          if \<not> canView userId j then respond 404 (Error ''Job not found or access denied'')
          else (\<lambda>d'.
            let applications =
                  (if present userId \<and> Some (creator_id j) = userId
                   then map (applicant_view d')
                          (order_desc a_created_at
                             (filter (\<lambda>a. eq_id (a_job_id a) (req_job_id b))
                                (job_applications d')))
                   else [])
            in respond 200 (JobDetail (job_with_counts d' userId j) applications) d')) d))"

subsection \<open>Writing a JSON value to a column\<close>

text \<open>
  The datastore casts the JSON value of a statement to the type of its column or rejects
  the statement. A text column takes the text of any value but null; the integer column
  \<^verbatim>\<open>max_applications\<close> takes an integral number (the model refuses a numeric text),
  the timestamp column \<^verbatim>\<open>expires_at\<close> a text the datastore can read as an instant,
  the column \<^verbatim>\<open>status\<close> one of the two states the frontend type names; a nullable
  column also takes null.
\<close>

fun cast_text :: "jsval \<Rightarrow> string + string" where
  "cast_text JNull = Inl ''null value violates not-null constraint''"
| "cast_text JUndefined = Inl ''null value violates not-null constraint''"
| "cast_text v = Inr (js_String v)"

fun cast_text_null :: "jsval \<Rightarrow> string + string option" where
  "cast_text_null JNull = Inr None"
| "cast_text_null JUndefined = Inr None"
| "cast_text_null v = Inr (Some (js_String v))"

fun cast_int_null :: "jsval \<Rightarrow> string + int option" where
  "cast_int_null JNull = Inr None"
| "cast_int_null (JNum n) = Inr (Some (sint n))"
| "cast_int_null v = Inl ''invalid input syntax for type integer''"

fun cast_time_null :: "env \<Rightarrow> jsval \<Rightarrow> string + timestamp option" where
  "cast_time_null e JNull = Inr None"
| "cast_time_null e (JStr s) =
     (case parse_time e s of
        None \<Rightarrow> Inl ''invalid input syntax for type timestamp''
      | Some t \<Rightarrow> Inr (Some t))"
| "cast_time_null e v = Inl ''invalid input syntax for type timestamp''"

fun cast_status :: "jsval \<Rightarrow> string + string" where
  "cast_status (JStr s) =
     (if s = ''open'' \<or> s = ''closed'' then Inr s
      else Inl ''invalid input value for enum job_status'')"
| "cast_status v = Inl ''invalid input value for enum job_status''"

subsection \<open>\<^verbatim>\<open>create\<close>\<close>

text \<open>
  The insert of \<^verbatim>\<open>create\<close>, with \<^verbatim>\<open>.select().single()\<close>: the new row, or the
  datastore's error.
\<close>

definition insert_job ::
  "env \<Rightarrow> string \<Rightarrow> string \<Rightarrow> string \<Rightarrow> string option \<Rightarrow> string option
     \<Rightarrow> jsval \<Rightarrow> jsval \<Rightarrow> string + job" where
  "insert_job e u t ds c l m x =
     (case cast_int_null m of
        Inl err \<Rightarrow> Inl err
      | Inr m' \<Rightarrow>
         (case cast_time_null e x of
            Inl err \<Rightarrow> Inl err
          | Inr x' \<Rightarrow>
             if rejects_insert e ''jobs''
             then Inl ''new row violates a constraint of the table''
             else Inr \<lparr>j_id = new_id e, creator_id = u, title = t, description = ds,
                       conditions = c, location = l, max_applications = m',
                       expires_at = x', status = ''open'',
                       approval_status = Some ''pending'',
                       created_at = db_now e, updated_at = db_now e\<rparr>))"

definition action_create :: "env \<Rightarrow> string option \<Rightarrow> body \<Rightarrow> db \<Rightarrow> outcome" where
  "action_create e userId b =
     require_user userId (\<lambda>u.
     try_js (opt_trim ''title'' (req_title b)) (\<lambda>t.
       if \<not> truthy t then respond 400 (Error ''Title and description are required'')
       else
     try_js (opt_trim ''description'' (req_description b)) (\<lambda>ds.
       if \<not> truthy ds then respond 400 (Error ''Title and description are required'')
       else
     try_js (trim_or_null ''conditions'' (req_conditions b)) (\<lambda>c.
     try_js (trim_or_null ''location'' (req_location b)) (\<lambda>l.
     try_db (insert_job e u (js_String t) (js_String ds) c l
               (js_or (req_max_applications b) JNull)
               (js_or (req_expires_at b) JNull)) (\<lambda>j d.
       respond 200 (JobCreated j ''Job created! It will be visible after admin approval.'')
         (d\<lparr>jobs := jobs d @ [j]\<rparr>)))))))"

subsection \<open>\<^verbatim>\<open>update\<close> and \<^verbatim>\<open>delete\<close>\<close>

text \<open>
  \<^verbatim>\<open>filteredUpdates\<close> holds the allowed keys that are present in the body, and
  \<^verbatim>\<open>updated_at\<close>. One column after the other is written to the row; a key that is
  absent leaves its column as it is.
\<close>

definition set_column ::
  "jsval \<Rightarrow> (jsval \<Rightarrow> string + 'c) \<Rightarrow> ('c \<Rightarrow> job \<Rightarrow> job) \<Rightarrow> string + job \<Rightarrow> string + job" where
  "set_column v cast put r =
     (case r of
        Inl err \<Rightarrow> Inl err
      | Inr j \<Rightarrow>
          if v = JUndefined then Inr j
          else (case cast v of Inl err \<Rightarrow> Inl err | Inr c \<Rightarrow> Inr (put c j)))"

definition update_row :: "env \<Rightarrow> body \<Rightarrow> job \<Rightarrow> string + job" where
  "update_row e b j =
     (case
        set_column (req_status b) cast_status (\<lambda>c r. r\<lparr>status := c\<rparr>)
       (set_column (req_expires_at b) (cast_time_null e) (\<lambda>c r. r\<lparr>expires_at := c\<rparr>)
       (set_column (req_max_applications b) cast_int_null (\<lambda>c r. r\<lparr>max_applications := c\<rparr>)
       (set_column (req_location b) cast_text_null (\<lambda>c r. r\<lparr>location := c\<rparr>)
       (set_column (req_conditions b) cast_text_null (\<lambda>c r. r\<lparr>conditions := c\<rparr>)
       (set_column (req_description b) cast_text (\<lambda>c r. r\<lparr>description := c\<rparr>)
       (set_column (req_title b) cast_text (\<lambda>c r. r\<lparr>title := c\<rparr>) (Inr j)))))))
      of Inl err \<Rightarrow> Inl err
       | Inr j' \<Rightarrow> Inr (j'\<lparr>updated_at := clock e 0\<rparr>))"

fun update_where :: "('r \<Rightarrow> bool) \<Rightarrow> ('r \<Rightarrow> string + 'r) \<Rightarrow> 'r list \<Rightarrow> string + 'r list" where
  "update_where P f [] = Inr []"
| "update_where P f (r # rs) =
     (if P r
      then (case f r of
              Inl err \<Rightarrow> Inl err
            | Inr r' \<Rightarrow> (case update_where P f rs of Inl err \<Rightarrow> Inl err | Inr rs' \<Rightarrow> Inr (r' # rs')))
      else (case update_where P f rs of Inl err \<Rightarrow> Inl err | Inr rs' \<Rightarrow> Inr (r # rs')))"

definition find_existing :: "body \<Rightarrow> db \<Rightarrow> job option" where
  "find_existing b d = data_single (filter (\<lambda>j. eq_id (j_id j) (req_job_id b)) (jobs d))"

definition not_owner :: "job option \<Rightarrow> string \<Rightarrow> bool" where
  "not_owner existing u = (case existing of None \<Rightarrow> True | Some j \<Rightarrow> creator_id j \<noteq> u)"

definition action_update :: "env \<Rightarrow> string option \<Rightarrow> body \<Rightarrow> db \<Rightarrow> outcome" where
  "action_update e userId b =
     require_user userId (\<lambda>u.
       if \<not> truthy (req_job_id b) then respond 400 (Error ''Job ID required'')
       else (\<lambda>d.
         if not_owner (find_existing b d) u
         then respond 403 (Error ''Not authorized to update this job'') d
         else
           try_db (update_where (\<lambda>j. eq_id (j_id j) (req_job_id b)) (update_row e b) (jobs d))
             (\<lambda>js d'. respond 200 Success (d'\<lparr>jobs := js\<rparr>)) d))"

definition action_delete :: "string option \<Rightarrow> body \<Rightarrow> db \<Rightarrow> outcome" where
  "action_delete userId b =
     require_user userId (\<lambda>u.
       if \<not> truthy (req_job_id b) then respond 400 (Error ''Job ID required'')
       else (\<lambda>d.
         if not_owner (find_existing b d) u
         then respond 403 (Error ''Not authorized to delete this job'') d
         else
           respond 200 Success
             (d\<lparr>job_applications :=
                  filter (\<lambda>a. \<not> eq_id (a_job_id a) (req_job_id b)) (job_applications d),
                jobs := filter (\<lambda>j. \<not> eq_id (j_id j) (req_job_id b)) (jobs d)\<rparr>)))"


subsection \<open>\<^verbatim>\<open>apply\<close> and \<^verbatim>\<open>reply\<close>\<close>

definition job_open :: "job option \<Rightarrow> bool" where
  "job_open r =
     (case r of
        None \<Rightarrow> False
      | Some j \<Rightarrow> status j = ''open'' \<and> approval_status j = Some ''approved'')"

definition existing_application :: "string \<Rightarrow> body \<Rightarrow> db \<Rightarrow> job_application option" where
  "existing_application u b d =
     data_maybeSingle
       (filter (\<lambda>a. eq_id (a_job_id a) (req_job_id b) \<and> applicant_id a = u)
          (job_applications d))"

definition insert_application ::
  "env \<Rightarrow> string \<Rightarrow> string \<Rightarrow> string option \<Rightarrow> string option \<Rightarrow> string option
     \<Rightarrow> string + job_application" where
  "insert_application e i u m q x =
     (if rejects_insert e ''job_applications''
      then Inl ''new row violates a constraint of the table''
      else Inr \<lparr>a_id = new_id e, a_job_id = i, applicant_id = u, message = m,
                education_qualification = q, experience_details = x,
                creator_reply = None, replied_at = None, a_created_at = db_now e\<rparr>)"

definition action_apply :: "env \<Rightarrow> string option \<Rightarrow> body \<Rightarrow> db \<Rightarrow> outcome" where
  "action_apply e userId b =
     require_user userId (\<lambda>u.
       if \<not> truthy (req_job_id b) then respond 400 (Error ''Job ID required'')
       else (\<lambda>d.
         if \<not> job_open (find_existing b d)
         then respond 400 (Error ''Job is not open for applications'') d
         else if \<not> not_owner (find_existing b d) u
         then respond 400 (Error ''Cannot apply to your own job'') d
         else if existing_application u b d \<noteq> None
         then respond 400 (Error ''You have already applied to this job'') d
         else
           (try_js (trim_or_null ''message'' (req_message b)) (\<lambda>m.
            try_js (trim_or_null ''education_qualification'' (req_education_qualification b)) (\<lambda>q.
            try_js (trim_or_null ''experience_details'' (req_experience_details b)) (\<lambda>x.
            try_db (insert_application e (js_String (req_job_id b)) u m q x) (\<lambda>a d'.
              respond 200 (SuccessMessage ''Application submitted!'')
                (d'\<lparr>job_applications := job_applications d' @ [a]\<rparr>)))))) d))"

text \<open>
  \<^verbatim>\<open>replyMessages[reply_type] || replyMessages.contact_soon\<close>. The key is the text of
  \<^verbatim>\<open>reply_type\<close>. One of the three keys gives its reply, and a key that the object
  does not have gives the first reply. A key that names a function every object
  inherits gives that function, which is left out of the JSON of the update: the
  column \<^verbatim>\<open>creator_reply\<close> is then not written (the result \<open>None\<close>). The key
  \<^verbatim>\<open>__proto__\<close> gives the prototype, an empty object in JSON.
\<close>

definition inherited_functions :: "string list" where
  "inherited_functions =
     [''constructor'', ''toString'', ''toLocaleString'', ''valueOf'', ''hasOwnProperty'',
      ''isPrototypeOf'', ''propertyIsEnumerable'', ''__defineGetter__'', ''__defineSetter__'',
      ''__lookupGetter__'', ''__lookupSetter__'']"

definition replyMessage :: "jsval \<Rightarrow> string option" where
  "replyMessage v =
     (if js_String v = ''shortlisted''
      then Some ''Congratulations! You have been shortlisted. We will contact you for further details.''
      else if js_String v = ''not_selected''
      then Some ''Thank you for applying. Unfortunately, we have decided to move forward with other candidates.''
      else if js_String v \<in> set inherited_functions then None
      else if js_String v = ''__proto__'' then Some ''{}''
      else Some ''We will contact you soon. Thank you for your interest!'')"

definition action_reply :: "env \<Rightarrow> string option \<Rightarrow> body \<Rightarrow> db \<Rightarrow> outcome" where
  "action_reply e userId b =
     require_user userId (\<lambda>u.
       if \<not> truthy (req_application_id b) then respond 400 (Error ''Application ID required'')
       else (\<lambda>d.
         case data_single
                (filter (\<lambda>a. eq_id (a_id a) (req_application_id b)) (job_applications d)) of
           None \<Rightarrow> respond 404 (Error ''Application not found'') d
         | Some application \<Rightarrow>
             if map_option creator_id (job_of d (a_job_id application)) \<noteq> Some u
             then respond 403 (Error ''Not authorized to reply to this application'') d
             else
               respond 200 (SuccessMessage ''Reply sent!'')
                 (d\<lparr>job_applications :=
                      map (\<lambda>a. if eq_id (a_id a) (req_application_id b)
                                then a\<lparr>creator_reply :=
                                         (case replyMessage (req_reply_type b) of
                                            None \<Rightarrow> creator_reply a
                                          | Some m \<Rightarrow> Some m),
                                       replied_at := Some (clock e 0)\<rparr>
                                else a)
                        (job_applications d)\<rparr>)))"

subsection \<open>\<^verbatim>\<open>get_all_applications\<close>, \<^verbatim>\<open>my_applications\<close>, \<^verbatim>\<open>check_business_owner\<close>\<close>

definition admin_view :: "db \<Rightarrow> job_application \<Rightarrow> application_view" where
  "admin_view d a =
     \<lparr>av_application = a,
      av_job = job_of d (a_job_id a),
      av_profile = map_option contact_card (profile_of d (applicant_id a))\<rparr>"

definition my_view :: "db \<Rightarrow> job_application \<Rightarrow> application_view" where
  "my_view d a =
     \<lparr>av_application = a,
      av_job = job_of d (a_job_id a),
      av_profile =
        (case job_of d (a_job_id a) of
           None \<Rightarrow> None
         | Some j \<Rightarrow> map_option public_card (profile_of d (creator_id j)))\<rparr>"

text \<open>
  The session row of \<^verbatim>\<open>get_all_applications\<close>:
  \<^verbatim>\<open>.eq("session_token", t).eq("is_active", true).gt("expires_at", now).single()\<close>
\<close>

definition live_session :: "env \<Rightarrow> string \<Rightarrow> db \<Rightarrow> user_session option" where
  "live_session e t d =
     data_single
       (filter (\<lambda>s. session_token s = t \<and> is_active s \<and> clock e 0 < s_expires_at s)
          (user_sessions d))"

definition roles_of :: "db \<Rightarrow> string \<Rightarrow> string list" where
  "roles_of d u = map role (filter (\<lambda>r. r_user_id r = u) (user_roles d))"

definition action_get_all_applications :: "env \<Rightarrow> body request \<Rightarrow> db \<Rightarrow> outcome" where
  "action_get_all_applications e rq d =
     (case x_session_token rq of
        None \<Rightarrow> respond 401 (Error ''Admin authentication required'') d
      | Some t \<Rightarrow>
          if t = [] then respond 401 (Error ''Admin authentication required'') d
          else
            (case live_session e t d of
               None \<Rightarrow> respond 401 (Error ''Invalid or expired session'') d
             | Some session \<Rightarrow>
                 if length (roles_of d (s_user_id session)) = 0
                 then respond 403 (Error ''Unauthorized: Admin access required'') d
                 else
                   respond 200
                     (Applications
                        (map (admin_view d) (order_desc a_created_at (job_applications d))))
                     d))"

definition action_my_applications :: "string option \<Rightarrow> db \<Rightarrow> outcome" where
  "action_my_applications userId =
     require_user userId (\<lambda>u d.
       respond 200
         (Applications
            (map (my_view d)
               (order_desc a_created_at (filter (\<lambda>a. applicant_id a = u) (job_applications d)))))
         d)"

definition action_check_business_owner :: "string option \<Rightarrow> db \<Rightarrow> outcome" where
  "action_check_business_owner userId =
     require_user userId (\<lambda>u d.
       respond 200
         (IsBusinessOwner
            (0 < length (take 1 (filter (\<lambda>x. owner_id x = u \<and> biz_approval_status x = Some ''approved'')
                                   (businesses d)))))
         d)"

subsection \<open>The handler\<close>

text \<open>
  The \<^verbatim>\<open>try\<close> block: the session lookup, the body, the \<^verbatim>\<open>switch\<close> on the action.
  The stored procedure is consulted only for a token that is not empty.
\<close>

definition session_user :: "env \<Rightarrow> 'b request \<Rightarrow> string option" where
  "session_user e rq =
     (case x_session_token rq of
        None \<Rightarrow> None
      | Some t \<Rightarrow> if t = [] then None else validate_session e t)"

definition dispatch :: "env \<Rightarrow> body request \<Rightarrow> string option \<Rightarrow> body \<Rightarrow> db \<Rightarrow> outcome" where
  "dispatch e rq userId b =
     (if req_action b = JStr ''list'' then action_list e userId
      else if req_action b = JStr ''my_jobs'' then action_my_jobs userId
      else if req_action b = JStr ''get'' then action_get userId b
      else if req_action b = JStr ''create'' then action_create e userId b
      else if req_action b = JStr ''update'' then action_update e userId b
      else if req_action b = JStr ''delete'' then action_delete userId b
      else if req_action b = JStr ''apply'' then action_apply e userId b
      else if req_action b = JStr ''reply'' then action_reply e userId b
      else if req_action b = JStr ''get_all_applications'' then action_get_all_applications e rq
      else if req_action b = JStr ''my_applications'' then action_my_applications userId
      else if req_action b = JStr ''check_business_owner'' then action_check_business_owner userId
      else respond 400 (Error ''Invalid action''))"

definition manage_jobs_try :: "env \<Rightarrow> body request \<Rightarrow> db \<Rightarrow> outcome" where
  "manage_jobs_try e rq d =
     (let userId = session_user e rq
      in case json rq of
           Unparsable m \<Rightarrow> throw (SyntaxError m) d
         | JsonNull \<Rightarrow> throw (TypeError ''Cannot destructure property 'action' of 'body' as it is null.'') d
         | Json b \<Rightarrow> dispatch e rq userId b d)"

text \<open>
  The \<^verbatim>\<open>catch\<close> block:
  \<^verbatim>\<open>error instanceof Error ? error.message : "Unknown error"\<close>, with status 500.
\<close>

definition catch_message :: "env \<Rightarrow> thrown \<Rightarrow> string" where
  "catch_message e t =
     (case t of
        SyntaxError m \<Rightarrow> m
      | TypeError m \<Rightarrow> m
      | PostgrestError m \<Rightarrow> if postgrest_error_is_Error e then m else ''Unknown error'')"

definition manage_jobs :: "env \<Rightarrow> body request \<Rightarrow> db \<Rightarrow> response \<times> db" where
  "manage_jobs e rq d =
     (if http_method rq = ''OPTIONS'' then (Response 200 NoBody, d)
      else
        case manage_jobs_try e rq d of
          (Inl t, d') \<Rightarrow> (Response 500 (Error (catch_message e t)), d')
        | (Inr r, d') \<Rightarrow> (r, d'))"


section \<open>The handlers \<^verbatim>\<open>create-post\<close> and \<^verbatim>\<open>create-business\<close>\<close>

text \<open>
  Neither handler reads a header of the request. Both end an error of the datastore
  with a response of their own, and their \<^verbatim>\<open>catch\<close> block answers
  \<^verbatim>\<open>"Internal server error"\<close>.
\<close>

record post_body =
  cp_user_id :: jsval
  cp_content :: jsval
  cp_image_url :: jsval
  cp_youtube_url :: jsval

definition new_profile :: "string \<Rightarrow> profile" where
  "new_profile i =
     \<lparr>p_id = i, full_name = None, username = None, avatar_url = None,
      mobile_number = None, email = None, date_of_birth = None\<rparr>"

text \<open>
  \<^verbatim>\<open>.upsert({ id: user_id }, { onConflict: 'id' })\<close>: nothing to do when the id is
  there, a new row otherwise.
\<close>

definition upsert_profile :: "env \<Rightarrow> jsval \<Rightarrow> db \<Rightarrow> string + db" where
  "upsert_profile e v d =
     (if js_String v \<in> set (map p_id (profiles d)) then Inr d
      else if rejects_insert e ''profiles''
      then Inl ''new row violates a constraint of the table''
      else Inr (d\<lparr>profiles := profiles d @ [new_profile (js_String v)]\<rparr>))"

definition insert_post :: "env \<Rightarrow> string \<Rightarrow> jsval \<Rightarrow> jsval \<Rightarrow> jsval \<Rightarrow> string + post" where
  "insert_post e u c i y =
     (if rejects_insert e ''posts'' then Inl ''new row violates a constraint of the table''
      else Inr \<lparr>post_id = new_id e, post_user_id = u,
                content = (if c = JNull then None else Some (js_String c)),
                image_url = (if i = JNull then None else Some (js_String i)),
                youtube_url = (if y = JNull then None else Some (js_String y))\<rparr>)"

definition create_post_checked :: "env \<Rightarrow> post_body \<Rightarrow> db \<Rightarrow> outcome" where
  "create_post_checked e b d =
     (if \<not> truthy (cp_content b) \<and> \<not> truthy (cp_image_url b) \<and> \<not> truthy (cp_youtube_url b)
      then respond 400 (Error ''Post must have content, image, or video'') d
      else
        case insert_post e (js_String (cp_user_id b))
               (js_or (cp_content b) JNull) (js_or (cp_image_url b) JNull)
               (js_or (cp_youtube_url b) JNull) of
          Inl err \<Rightarrow> respond 500 (Error ''Failed to create post'') d
        | Inr p \<Rightarrow> respond 200 (PostCreated p) (d\<lparr>posts := posts d @ [p]\<rparr>))"

definition create_post_try :: "env \<Rightarrow> post_body \<Rightarrow> db \<Rightarrow> outcome" where
  "create_post_try e b d =
     (if \<not> truthy (cp_user_id b) then respond 400 (Error ''User ID is required'') d
      else if data_maybeSingle (filter (\<lambda>p. eq_id (p_id p) (cp_user_id b)) (profiles d)) = None
      then (case upsert_profile e (cp_user_id b) d of
              Inl err \<Rightarrow> respond 400 (Error ''Please complete your profile setup first'') d
            | Inr d' \<Rightarrow> create_post_checked e b d')
      else create_post_checked e b d)"

definition internal_error :: "outcome \<Rightarrow> response \<times> db" where
  "internal_error r =
     (case r of
        (Inl t, d') \<Rightarrow> (Response 500 (Error ''Internal server error''), d')
      | (Inr rs, d') \<Rightarrow> (rs, d'))"

definition create_post :: "env \<Rightarrow> post_body request \<Rightarrow> db \<Rightarrow> response \<times> db" where
  "create_post e rq d =
     (if http_method rq = ''OPTIONS'' then (Response 200 NoBody, d)
      else
        case json rq of
          Unparsable m \<Rightarrow> internal_error (throw (SyntaxError m) d)
        | JsonNull \<Rightarrow> internal_error (throw (TypeError ''Cannot destructure property 'user_id' of '(intermediate value)' as it is null.'') d)
        | Json b \<Rightarrow> internal_error (create_post_try e b d))"

record business_body =
  cb_user_id :: jsval
  cb_name :: jsval
  cb_description :: jsval
  cb_category :: jsval
  cb_location :: jsval
  cb_logo_url :: jsval
  cb_cover_image_url :: jsval
  cb_website_url :: jsval
  cb_instagram_link :: jsval
  cb_youtube_link :: jsval

definition text_or_null :: "jsval \<Rightarrow> string option" where
  "text_or_null v = (if truthy v then Some (js_String v) else None)"

definition insert_business :: "env \<Rightarrow> business_body \<Rightarrow> string + business" where
  "insert_business e b =
     (if rejects_insert e ''businesses'' then Inl ''new row violates a constraint of the table''
      else Inr \<lparr>biz_id = new_id e, owner_id = js_String (cb_user_id b),
                biz_name = js_String (cb_name b),
                biz_description = text_or_null (cb_description b),
                category = js_String (js_or (cb_category b) (JStr ''other'')),
                biz_location = text_or_null (cb_location b),
                logo_url = text_or_null (cb_logo_url b),
                cover_image_url = text_or_null (cb_cover_image_url b),
                website_url = text_or_null (cb_website_url b),
                instagram_link = text_or_null (cb_instagram_link b),
                youtube_link = text_or_null (cb_youtube_link b),
                biz_approval_status = Some ''pending''\<rparr>)"

definition create_business_try :: "env \<Rightarrow> business_body \<Rightarrow> db \<Rightarrow> outcome" where
  "create_business_try e b d =
     (if \<not> truthy (cb_user_id b) then respond 400 (Error ''User ID is required'') d
      else if \<not> truthy (cb_name b) then respond 400 (Error ''Business name is required'') d
      else if data_maybeSingle (filter (\<lambda>p. eq_id (p_id p) (cb_user_id b)) (profiles d)) = None
      then respond 400 (Error ''User not found'') d
      else
        case insert_business e b of
          Inl err \<Rightarrow> respond 500 (Error (''Failed to create business: '' @ err)) d
        | Inr x \<Rightarrow> respond 200 (BusinessCreated x) (d\<lparr>businesses := businesses d @ [x]\<rparr>))"

definition create_business :: "env \<Rightarrow> business_body request \<Rightarrow> db \<Rightarrow> response \<times> db" where
  "create_business e rq d =
     (if http_method rq = ''OPTIONS'' then (Response 200 NoBody, d)
      else
        case json rq of
          Unparsable m \<Rightarrow> internal_error (throw (SyntaxError m) d)
        | JsonNull \<Rightarrow> internal_error (throw (TypeError ''Cannot destructure property 'user_id' of '(intermediate value)' as it is null.'') d)
        | Json b \<Rightarrow> internal_error (create_business_try e b d))"


section \<open>The handler \<^verbatim>\<open>mobile-auth\<close>\<close>

text \<open>
  The handler of sign-up and sign-in, in a deployment whose two environment variables
  are set. \<^verbatim>\<open>body ?? {}\<close> reads a null body as an empty object.
\<close>

record auth_body =
  ma_action :: jsval
  ma_mobile_number :: jsval
  ma_password :: jsval
  ma_full_name :: jsval
  ma_username :: jsval
  ma_date_of_birth :: jsval
  ma_session_token :: jsval

definition empty_auth_body :: auth_body where
  "empty_auth_body =
     \<lparr>ma_action = JUndefined, ma_mobile_number = JUndefined, ma_password = JUndefined,
      ma_full_name = JUndefined, ma_username = JUndefined, ma_date_of_birth = JUndefined,
      ma_session_token = JUndefined\<rparr>"

text \<open>\<^verbatim>\<open>/^[a-zA-Z0-9_]{3,30}$/.test(v)\<close>, on the text of the value.\<close>

definition username_char :: "char \<Rightarrow> bool" where
  "username_char c =
     (c \<in> set ''abcdefghijklmnopqrstuvwxyzABCDEFGHIJKLMNOPQRSTUVWXYZ0123456789_'')"

definition usernameRegex_test :: "jsval \<Rightarrow> bool" where
  "usernameRegex_test v =
     (3 \<le> length (js_String v) \<and> length (js_String v) \<le> 30
      \<and> list_all username_char (js_String v))"

definition hashPassword :: "env \<Rightarrow> jsval \<Rightarrow> string" where
  "hashPassword e v = sha256_hex e (js_String v)"

definition thirty_days :: nat where
  "thirty_days = 30 * 24 * 60 * 60 * 1000"

definition new_session :: "env \<Rightarrow> string \<Rightarrow> user_session" where
  "new_session e u =
     \<lparr>session_token = session_token_bytes e, s_user_id = u,
      s_expires_at = clock e 0 + thirty_days, is_active = True\<rparr>"

subsection \<open>\<^verbatim>\<open>admin_validate\<close>\<close>

definition admin_validate :: "env \<Rightarrow> auth_body \<Rightarrow> db \<Rightarrow> outcome" where
  "admin_validate e b d =
     (if \<not> truthy (ma_session_token b) then respond 400 (Error ''Session token is required'') d
      else
        case data_maybeSingle
               (filter (\<lambda>s. session_token s = js_String (ma_session_token b) \<and> is_active s)
                  (user_sessions d)) of
          None \<Rightarrow> respond 401 (Error ''Invalid or expired session'') d
        | Some sessionRow \<Rightarrow>
            if s_expires_at sessionRow \<le> clock e 0
            then respond 401 (Error ''Invalid or expired session'') d
            else
              (case data_maybeSingle (filter (\<lambda>p. p_id p = s_user_id sessionRow) (profiles d)) of
                 None \<Rightarrow> respond 404 (Error ''Profile not found'') d
               | Some p \<Rightarrow> respond 200 (AdminUser p (roles_of d (s_user_id sessionRow))) d))"

subsection \<open>\<^verbatim>\<open>signup\<close>\<close>

definition existingUser :: "auth_body \<Rightarrow> db \<Rightarrow> user_credential option" where
  "existingUser b d =
     data_maybeSingle
       (filter (\<lambda>c. c_mobile_number c = js_String (ma_mobile_number b)) (user_credentials d))"

definition existingUsername :: "string \<Rightarrow> db \<Rightarrow> profile option" where
  "existingUsername n d = data_maybeSingle (filter (\<lambda>p. username p = Some n) (profiles d))"

definition new_credentials :: "env \<Rightarrow> auth_body \<Rightarrow> user_credential" where
  "new_credentials e b =
     \<lparr>c_id = new_id e, c_mobile_number = js_String (ma_mobile_number b),
      password_hash = hashPassword e (ma_password b)\<rparr>"

definition profileData :: "string \<Rightarrow> string \<Rightarrow> auth_body \<Rightarrow> profile" where
  "profileData i n b =
     \<lparr>p_id = i, full_name = Some (js_String (ma_full_name b)), username = Some n,
      avatar_url = None, mobile_number = Some (js_String (ma_mobile_number b)), email = None,
      date_of_birth =
        (if truthy (ma_date_of_birth b) then Some (js_String (ma_date_of_birth b)) else None)\<rparr>"

text \<open>
  After the checks: the three inserts, each with the error branch of the source. When
  the insert of the profile fails the row of credentials that was just written is
  deleted again.
\<close>

definition signup_inserts :: "env \<Rightarrow> auth_body \<Rightarrow> string \<Rightarrow> db \<Rightarrow> outcome" where
  "signup_inserts e b n d =
     (if rejects_insert e ''user_credentials''
      then respond 500 (Error ''Failed to create account'') d
      else
        let credentials = new_credentials e b;
            d1 = d\<lparr>user_credentials := user_credentials d @ [credentials]\<rparr>
        in if rejects_insert e ''profiles''
           then respond 500 (Error ''Failed to create profile'')
                  (d1\<lparr>user_credentials :=
                        filter (\<lambda>c. c_id c \<noteq> c_id credentials) (user_credentials d1)\<rparr>)
           else
             let d2 = d1\<lparr>profiles := profiles d1 @ [profileData (c_id credentials) n b]\<rparr>
             in if rejects_insert e ''user_sessions''
                then respond 500 (Error ''Failed to create session'') d2
                else
                  respond 200
                    (SignedUp (c_id credentials) (ma_mobile_number b) (ma_full_name b)
                       (session_token_bytes e))
                    (d2\<lparr>user_sessions := user_sessions d2 @ [new_session e (c_id credentials)]\<rparr>))"

definition signup :: "env \<Rightarrow> auth_body \<Rightarrow> db \<Rightarrow> outcome" where
  "signup e b =
     (if \<not> truthy (ma_full_name b) \<or> \<not> truthy (ma_username b)
      then respond 400 (Error ''Full name and username are required for signup'')
      else if \<not> usernameRegex_test (ma_username b)
      then respond 400
             (Error ''Username must be 3-30 characters and only contain letters, numbers, and underscores'')
      else (\<lambda>d.
        if existingUser b d \<noteq> None
        then respond 400 (Error ''This mobile number is already registered'') d
        else
          try_js (toLowerCase (ma_username b)) (\<lambda>n d'.
            if existingUsername n d' \<noteq> None
            then respond 400 (Error ''This username is already taken'') d'
            else signup_inserts e b n d') d))"

subsection \<open>\<^verbatim>\<open>signin\<close>\<close>

text \<open>(The column \<^verbatim>\<open>is_online\<close> that a sign-in sets is not a column of the model.)\<close>

definition signin :: "env \<Rightarrow> auth_body \<Rightarrow> db \<Rightarrow> outcome" where
  "signin e b d =
     (case existingUser b d of
        None \<Rightarrow> respond 401 (Error ''Invalid mobile number or password'') d
      | Some credentials \<Rightarrow>
          if hashPassword e (ma_password b) \<noteq> password_hash credentials
          then respond 401 (Error ''Invalid mobile number or password'') d
          else if rejects_insert e ''user_sessions''
          then respond 500 (Error ''Failed to create session'') d
          else
            respond 200
              (SignedIn (c_id credentials) (ma_mobile_number b)
                 (data_single (filter (\<lambda>p. p_id p = c_id credentials) (profiles d)))
                 (session_token_bytes e) (roles_of d (c_id credentials)))
              (d\<lparr>user_sessions := user_sessions d @ [new_session e (c_id credentials)]\<rparr>))"

subsection \<open>The handler\<close>

definition mobile_auth_try :: "env \<Rightarrow> auth_body \<Rightarrow> db \<Rightarrow> outcome" where
  "mobile_auth_try e b =
     (if ma_action b = JStr ''admin_validate'' then admin_validate e b
      else if \<not> truthy (ma_mobile_number b) \<or> \<not> truthy (ma_password b)
      then respond 400 (Error ''Mobile number and password are required'')
      else if ma_action b = JStr ''signup'' then signup e b
      else if ma_action b = JStr ''signin'' then signin e b
      else respond 400 (Error ''Invalid action''))"

definition mobile_auth :: "env \<Rightarrow> auth_body request \<Rightarrow> db \<Rightarrow> response \<times> db" where
  "mobile_auth e rq d =
     (if http_method rq = ''OPTIONS'' then (Response 200 NoBody, d)
      else
        case json rq of
          Unparsable m \<Rightarrow> internal_error (throw (SyntaxError m) d)
        | JsonNull \<Rightarrow> internal_error (mobile_auth_try e empty_auth_body d)
        | Json b \<Rightarrow> internal_error (mobile_auth_try e b d))"


section \<open>Notions used in the statements\<close>

text \<open>A request is authenticated as \<open>u\<close> when the session lookup gives the user id \<open>u\<close>.\<close>

definition authenticated :: "env \<Rightarrow> 'b request \<Rightarrow> string \<Rightarrow> bool" where
  "authenticated e rq u = (session_user e rq = Some u \<and> u \<noteq> [])"

text \<open>
  A string is white space only when it is made of white space characters and line
  terminators alone (the empty string too). A field is blank when it is absent, null
  or a string that is white space only.
\<close>

definition white_space_only :: "string \<Rightarrow> bool" where
  "white_space_only s = (\<exists>ws. list_all (\<lambda>w. w \<in> set ws_codes) ws \<and> concat ws = s)"

fun blank :: "jsval \<Rightarrow> bool" where
  "blank JUndefined = True"
| "blank JNull = True"
| "blank (JStr s) = white_space_only s"
| "blank v = False"

text \<open>A field is a text or absent: the values the frontend sends for a text field.\<close>

fun text_or_absent :: "jsval \<Rightarrow> bool" where
  "text_or_absent JUndefined = True"
| "text_or_absent JNull = True"
| "text_or_absent (JStr s) = True"
| "text_or_absent v = False"

text \<open>
  The keys of the two tables of the job board: a job id names one job, and a user has
  at most one application for a job.
\<close>

definition unique_job_ids :: "db \<Rightarrow> bool" where
  "unique_job_ids d = distinct (map j_id (jobs d))"

definition one_application_each :: "db \<Rightarrow> bool" where
  "one_application_each d =
     distinct (map (\<lambda>a. (a_job_id a, applicant_id a)) (job_applications d))"

text \<open>
  Who asks for all applications, in the words of the claim: the request carries the
  token of a session of the user \<open>u\<close> that is active and has not expired, and the
  table of roles has a row for \<open>u\<close>, whatever its role. A session token names one
  session.
\<close>

definition unique_session_tokens :: "db \<Rightarrow> bool" where
  "unique_session_tokens d = distinct (map session_token (user_sessions d))"

definition signed_in :: "env \<Rightarrow> 'b request \<Rightarrow> db \<Rightarrow> string \<Rightarrow> bool" where
  "signed_in e rq d u =
     (case x_session_token rq of
        None \<Rightarrow> False
      | Some t \<Rightarrow>
          t \<noteq> [] \<and>
          (\<exists>s\<in>set (user_sessions d).
              session_token s = t \<and> is_active s \<and> clock e 0 < s_expires_at s
              \<and> s_user_id s = u))"

definition has_role :: "db \<Rightarrow> string \<Rightarrow> bool" where
  "has_role d u = (\<exists>r\<in>set (user_roles d). r_user_id r = u)"

text \<open>
  The four reasons for which, in the words of the claim on \<^verbatim>\<open>apply\<close>, an application
  is refused: no job id, no job of that id that is open and approved, the applicant is
  the creator of the job, the applicant has applied to it before.
\<close>

definition apply_refused :: "string \<Rightarrow> body \<Rightarrow> db \<Rightarrow> bool" where
  "apply_refused u b d =
     (\<not> truthy (req_job_id b)
      \<or> \<not> (\<exists>j\<in>set (jobs d). eq_id (j_id j) (req_job_id b) \<and> status j = ''open''
                \<and> approval_status j = Some ''approved'')
      \<or> (\<exists>j\<in>set (jobs d). eq_id (j_id j) (req_job_id b) \<and> creator_id j = u)
      \<or> (\<exists>a\<in>set (job_applications d). eq_id (a_job_id a) (req_job_id b) \<and> applicant_id a = u))"

text \<open>The same four tests as \<^verbatim>\<open>apply\<close> makes them, on the rows it reads.\<close>

definition apply_checks :: "string \<Rightarrow> body \<Rightarrow> db \<Rightarrow> bool" where
  "apply_checks u b d =
     (\<not> truthy (req_job_id b) \<or> \<not> job_open (find_existing b d)
      \<or> \<not> not_owner (find_existing b d) u \<or> existing_application u b d \<noteq> None)"

text \<open>
  A sign-up request that passes the checks of its fields: mobile number, password and
  full name are given, and the username is a text of the required form.
\<close>

definition signup_request :: "auth_body request \<Rightarrow> auth_body \<Rightarrow> string \<Rightarrow> bool" where
  "signup_request rq b n =
     (http_method rq \<noteq> ''OPTIONS'' \<and> json rq = Json b \<and> ma_action b = JStr ''signup''
      \<and> truthy (ma_mobile_number b) \<and> truthy (ma_password b) \<and> truthy (ma_full_name b)
      \<and> ma_username b = JStr n \<and> usernameRegex_test (JStr n))"





text \<open>
  No row of credentials is left without a profile by a request: every row of credentials
  of the datastore after the request was there before it, or has a profile of its id.
\<close>

definition no_new_orphan :: "db \<Rightarrow> db \<Rightarrow> bool" where
  "no_new_orphan d d' =
     (\<forall>c\<in>set (user_credentials d').
        c \<in> set (user_credentials d) \<or> (\<exists>p\<in>set (profiles d'). p_id p = c_id c))"

text \<open>The status codes of the answers that the \<^verbatim>\<open>try\<close> block of \<^verbatim>\<open>manage-jobs\<close> returns.\<close>

definition codes_ok :: "outcome \<Rightarrow> bool" where
  "codes_ok r =
     (case fst r of Inl t \<Rightarrow> True | Inr x \<Rightarrow> status_code x \<in> {200, 400, 401, 403, 404})"

section \<open>A small datastore and some requests\<close>

definition sample_env :: env where
  "sample_env =
     \<lparr>clock = (\<lambda>n. 1000 + n), db_now = 1000, new_id = ''id-9'',
      validate_session =
        (\<lambda>t. if t = ''token-asha'' then Some ''asha''
             else if t = ''token-binu'' then Some ''binu''
             else if t = ''token-chitra'' then Some ''chitra'' else None),
      parse_time = (\<lambda>s. None), postgrest_error_is_Error = False,
      rejects_insert = (\<lambda>t. False), sha256_hex = (\<lambda>s. ''#'' @ s),
      session_token_bytes = ''token-new''\<rparr>"

definition tailor_job :: job where
  "tailor_job =
     \<lparr>j_id = ''job-1'', creator_id = ''asha'', title = ''Tailor'', description = ''Stitching'',
      conditions = None, location = None, max_applications = Some 1, expires_at = None,
      status = ''open'', approval_status = Some ''approved'', created_at = 100, updated_at = 100\<rparr>"

definition driver_job :: job where
  "driver_job =
     \<lparr>j_id = ''job-2'', creator_id = ''asha'', title = ''Driver'', description = ''Deliveries'',
      conditions = None, location = None, max_applications = None, expires_at = Some 500,
      status = ''open'', approval_status = Some ''approved'', created_at = 200, updated_at = 200\<rparr>"

definition cook_job :: job where
  "cook_job =
     \<lparr>j_id = ''job-3'', creator_id = ''binu'', title = ''Cook'', description = ''Canteen'',
      conditions = None, location = None, max_applications = None, expires_at = None,
      status = ''open'', approval_status = Some ''pending'', created_at = 300, updated_at = 300\<rparr>"

definition binu_application :: job_application where
  "binu_application =
     \<lparr>a_id = ''app-1'', a_job_id = ''job-1'', applicant_id = ''binu'', message = Some ''hello'',
      education_qualification = None, experience_details = None, creator_reply = None,
      replied_at = None, a_created_at = 400\<rparr>"

definition asha_profile :: profile where
  "asha_profile =
     \<lparr>p_id = ''asha'', full_name = Some ''Asha'', username = Some ''asha_k'', avatar_url = None,
      mobile_number = Some ''9000000001'', email = Some ''asha@example.org'',
      date_of_birth = None\<rparr>"

definition binu_profile :: profile where
  "binu_profile =
     \<lparr>p_id = ''binu'', full_name = Some ''Binu'', username = Some ''binu_m'', avatar_url = None,
      mobile_number = Some ''9000000002'', email = Some ''binu@example.org'',
      date_of_birth = None\<rparr>"

definition sample_db :: db where
  "sample_db =
     \<lparr>jobs = [tailor_job, driver_job, cook_job],
      job_applications = [binu_application],
      profiles = [asha_profile, binu_profile],
      user_sessions =
        [\<lparr>session_token = ''token-binu'', s_user_id = ''binu'', s_expires_at = 9000,
          is_active = True\<rparr>],
      user_roles = [\<lparr>r_user_id = ''binu'', role = ''content_moderator''\<rparr>],
      businesses = [],
      posts = [],
      user_credentials =
        [\<lparr>c_id = ''asha'', c_mobile_number = ''9000000001'', password_hash = ''#secret''\<rparr>]\<rparr>"

definition no_fields :: body where
  "no_fields =
     \<lparr>req_action = JUndefined, req_job_id = JUndefined, req_title = JUndefined,
      req_description = JUndefined, req_conditions = JUndefined, req_location = JUndefined,
      req_max_applications = JUndefined, req_expires_at = JUndefined, req_status = JUndefined,
      req_message = JUndefined, req_education_qualification = JUndefined,
      req_experience_details = JUndefined, req_application_id = JUndefined,
      req_reply_type = JUndefined\<rparr>"

definition hello_post :: post_body where
  "hello_post =
     \<lparr>cp_user_id = JStr ''asha'', cp_content = JStr ''hello'', cp_image_url = JUndefined,
      cp_youtube_url = JUndefined\<rparr>"

definition tea_shop :: business_body where
  "tea_shop =
     \<lparr>cb_user_id = JStr ''asha'', cb_name = JStr ''Tea shop'', cb_description = JUndefined,
      cb_category = JUndefined, cb_location = JUndefined, cb_logo_url = JUndefined,
      cb_cover_image_url = JUndefined, cb_website_url = JUndefined,
      cb_instagram_link = JUndefined, cb_youtube_link = JUndefined\<rparr>"

definition chitra_signup :: auth_body where
  "chitra_signup =
     \<lparr>ma_action = JStr ''signup'', ma_mobile_number = JStr ''9000000003'',
      ma_password = JStr ''secret'', ma_full_name = JStr ''Chitra'',
      ma_username = JStr ''Chitra_P'', ma_date_of_birth = JUndefined,
      ma_session_token = JUndefined\<rparr>"

definition post_as :: "string option \<Rightarrow> 'b \<Rightarrow> 'b request" where
  "post_as t b = \<lparr>http_method = ''POST'', x_session_token = t, json = Json b\<rparr>"

section \<open>Lemmas on the JavaScript operations and the datastore\<close>

lemma code_nonempty: "w \<in> set ws_codes \<Longrightarrow> w \<noteq> []"
  by (auto simp: ws_codes_def)

text \<open>No white space code is the head of another one.\<close>

lemma prefix_free:
  "w \<in> set ws_codes \<Longrightarrow> w' \<in> set ws_codes \<Longrightarrow> take (length w') (w @ r) = w' \<Longrightarrow> w' = w"
  unfolding ws_codes_def
  by (elim disjE | simp)+

lemma strip_Nil: "strip cs [] = []"
proof -
  have "find (starts_with []) cs = None"
    by (auto simp: find_None_iff starts_with_def)
  then show ?thesis
    by (subst strip.simps) simp
qed

lemma strip_code:
  assumes "w \<in> set ws_codes"
  shows "strip ws_codes (w @ r) = strip ws_codes r"
proof -
  have "starts_with (w @ r) w"
    using code_nonempty[OF assms] by (simp add: starts_with_def)
  with assms obtain w' where f: "find (starts_with (w @ r)) ws_codes = Some w'"
    by (cases "find (starts_with (w @ r)) ws_codes") (auto simp: find_None_iff)
  then have "w' \<in> set ws_codes" and "starts_with (w @ r) w'"
    by (auto simp: find_Some_iff)
  then have "w' = w"
    using prefix_free[OF assms, of w' r] by (simp add: starts_with_def)
  with f show ?thesis
    by (subst strip.simps) simp
qed

lemma strip_white_space:
  "list_all (\<lambda>w. w \<in> set ws_codes) ws \<Longrightarrow> strip ws_codes (concat ws) = []"
  by (induction ws) (simp_all add: strip_Nil strip_code)

lemma trim_white_space: "white_space_only s \<Longrightarrow> trim s = []"
  by (auto simp: white_space_only_def trim_def trimStart_def trimEnd_def strip_white_space
        strip_Nil)

lemma blank_opt_trim: "blank v \<Longrightarrow> \<exists>t. opt_trim f v = Inr t \<and> \<not> truthy t"
  by (cases v) (auto simp: trim_white_space)

lemma text_opt_trim: "text_or_absent v \<Longrightarrow> \<exists>t. opt_trim f v = Inr t"
  by (cases v) auto

lemma data_single_Some: "data_single xs = Some x \<longleftrightarrow> xs = [x]"
  by (cases xs rule: single.cases) (auto simp: data_single_def)

lemma data_single_mem: "data_single xs = Some x \<Longrightarrow> x \<in> set xs"
  by (simp add: data_single_Some)

lemma set_order_desc: "set (order_desc f xs) = set xs"
  by (simp add: order_desc_def)

lemma filter_key_short:
  "distinct (map f xs) \<Longrightarrow> (\<And>x. P x \<Longrightarrow> f x = k) \<Longrightarrow>
   filter P xs = [] \<or> (\<exists>x. filter P xs = [x])"
proof (induction xs)
  case Nil
  then show ?case by simp
next
  case (Cons a xs)
  show ?case
  proof (cases "P a")
    case True
    have "filter P xs = []"
    proof (rule ccontr)
      assume "filter P xs \<noteq> []"
      then obtain y where y: "y \<in> set xs" "P y"
        by (auto simp: filter_empty_conv)
      with Cons.prems(2) True have "f y = f a" by simp
      with y(1) Cons.prems(1) show False by (auto simp: image_iff)
    qed
    with True show ?thesis by simp
  next
    case False
    with Cons show ?thesis by simp
  qed
qed

lemma data_single_filter:
  assumes "distinct (map f xs)" and "\<And>x. P x \<Longrightarrow> f x = k"
  shows "data_single (filter P xs) = Some x \<longleftrightarrow> x \<in> set xs \<and> P x"
proof -
  from filter_key_short[OF assms] consider "filter P xs = []" | y where "filter P xs = [y]"
    by blast
  then show ?thesis
  proof cases
    case 1
    then show ?thesis by (auto simp: data_single_def filter_empty_conv)
  next
    case 2
    then have "set (filter P xs) = {y}" by simp
    then have "\<And>z. z \<in> set xs \<and> P z \<longleftrightarrow> z = y" by auto
    with 2 show ?thesis by (auto simp: data_single_def)
  qed
qed

lemma data_maybeSingle_filter:
  assumes "distinct (map f xs)" and "\<And>x. P x \<Longrightarrow> f x = k"
  shows "data_maybeSingle (filter P xs) \<noteq> None \<longleftrightarrow> (\<exists>x\<in>set xs. P x)"
proof -
  from filter_key_short[OF assms] consider "filter P xs = []" | y where "filter P xs = [y]"
    by blast
  then show ?thesis
  proof cases
    case 1
    then show ?thesis by (auto simp: data_maybeSingle_def filter_empty_conv)
  next
    case 2
    then have "y \<in> set (filter P xs)" by simp
    then have "y \<in> set xs" "P y" by simp_all
    with 2 show ?thesis by (auto simp: data_maybeSingle_def)
  qed
qed


lemma single_one: "data_single xs \<noteq> None \<longleftrightarrow> length xs = 1"
  by (cases xs rule: single.cases) (simp_all add: data_single_def)

lemmas sample_defs = sample_db_def sample_env_def tailor_job_def driver_job_def cook_job_def
  binu_application_def asha_profile_def binu_profile_def no_fields_def post_as_def

lemmas handler_defs = manage_jobs_def manage_jobs_try_def dispatch_def session_user_def
  respond_def throw_def try_js_def try_db_def require_user_def catch_message_def Let_def

lemma manage_jobs_dispatch:
  "http_method rq \<noteq> ''OPTIONS'' \<Longrightarrow> json rq = Json b \<Longrightarrow>
   manage_jobs e rq d =
     (case dispatch e rq (session_user e rq) b d of
        (Inl t, d') \<Rightarrow> (Response 500 (Error (catch_message e t)), d')
      | (Inr r, d') \<Rightarrow> (r, d'))"
  by (simp add: manage_jobs_def manage_jobs_try_def)

section \<open>\<^verbatim>\<open>create\<close>: a blank title or description\<close>

lemma create_blank:
  assumes "authenticated e rq u"
      and "blank (req_title b) \<or> (text_or_absent (req_title b) \<and> blank (req_description b))"
  shows "action_create e (session_user e rq) b d =
           (Inr (Response 400 (Error ''Title and description are required'')), d)"
proof -
  from assms(1) have u: "session_user e rq = Some u" "u \<noteq> []"
    by (simp_all add: authenticated_def)
  from assms(2) show ?thesis
  proof
    assume "blank (req_title b)"
    then obtain t where "opt_trim ''title'' (req_title b) = Inr t" "\<not> truthy t"
      using blank_opt_trim by blast
    then show ?thesis
      by (simp add: action_create_def require_user_def try_js_def respond_def u)
  next
    assume a: "text_or_absent (req_title b) \<and> blank (req_description b)"
    then obtain t where t: "opt_trim ''title'' (req_title b) = Inr t"
      using text_opt_trim by blast
    from a obtain ds where "opt_trim ''description'' (req_description b) = Inr ds" "\<not> truthy ds"
      using blank_opt_trim by blast
    then show ?thesis
      by (simp add: action_create_def require_user_def try_js_def respond_def u t)
  qed
qed

text \<open>
  C6, as the code has it. An authenticated \<^verbatim>\<open>create\<close> whose title is blank, or whose
  title is a text (or absent) and whose description is blank, is answered 400 and the
  datastore is left as it was: no job is inserted.
\<close>

theorem create_blank_is_400:
  assumes "http_method rq \<noteq> ''OPTIONS''" and "json rq = Json b"
      and "req_action b = JStr ''create''"
      and "authenticated e rq u"
      and "blank (req_title b) \<or> (text_or_absent (req_title b) \<and> blank (req_description b))"
  shows "manage_jobs e rq d = (Response 400 (Error ''Title and description are required''), d)"
  using create_blank[OF assms(4,5)] assms(1,2,3)
  by (simp add: manage_jobs_dispatch dispatch_def)

theorem create_blank_is_400_witness:
  "authenticated sample_env
     (post_as (Some ''token-asha'')
        (no_fields\<lparr>req_action := JStr ''create'', req_title := JStr ''Tailor'',
                   req_description := JStr [CHR 0xC2, CHR 0xA0, CHR 0x20]\<rparr>)) ''asha''
   \<and> manage_jobs sample_env
       (post_as (Some ''token-asha'')
          (no_fields\<lparr>req_action := JStr ''create'', req_title := JStr ''Tailor'',
                     req_description := JStr [CHR 0xC2, CHR 0xA0, CHR 0x20]\<rparr>)) sample_db
     = (Response 400 (Error ''Title and description are required''), sample_db)"
proof -
  let ?b = "no_fields\<lparr>req_action := JStr ''create'', req_title := JStr ''Tailor'',
                       req_description := JStr [CHR 0xC2, CHR 0xA0, CHR 0x20]\<rparr>"
  let ?rq = "post_as (Some ''token-asha'') ?b"
  have a: "authenticated sample_env ?rq ''asha''"
    by (simp add: authenticated_def session_user_def post_as_def sample_env_def)
  have m: "http_method ?rq \<noteq> ''OPTIONS''" and j: "json ?rq = Json ?b"
    by (simp_all add: post_as_def)
  have k: "req_action ?b = JStr ''create''"
    by simp
  have "list_all (\<lambda>w. w \<in> set ws_codes) [[CHR 0xC2, CHR 0xA0], [CHR 0x20]]
          \<and> concat [[CHR 0xC2, CHR 0xA0], [CHR 0x20]] = [CHR 0xC2, CHR 0xA0, CHR 0x20]"
    by (simp add: ws_codes_def)
  then have "white_space_only [CHR 0xC2, CHR 0xA0, CHR 0x20]"
    unfolding white_space_only_def by (rule exI[of _ "[[CHR 0xC2, CHR 0xA0], [CHR 0x20]]"])
  then have h: "blank (req_title ?b) \<or> (text_or_absent (req_title ?b) \<and> blank (req_description ?b))"
    by simp
  from a create_blank_is_400[OF m j k a h] show ?thesis
    by (rule conjI)
qed

text \<open>
  The claim as it is written fails where the title is a JSON value without string
  methods: \<^verbatim>\<open>title?.trim()\<close> throws before the description is looked at, and the
  answer is 500.
\<close>

theorem create_blank_description_counterexample:
  "manage_jobs sample_env
     (post_as (Some ''token-asha'')
        (no_fields\<lparr>req_action := JStr ''create'', req_title := JNum 5\<rparr>)) sample_db
   = (Response 500 (Error ''title?.trim is not a function''), sample_db)"
  by (simp add: manage_jobs_def manage_jobs_try_def dispatch_def session_user_def post_as_def
        sample_env_def no_fields_def action_create_def require_user_def try_js_def throw_def
        catch_message_def)


section \<open>\<^verbatim>\<open>update\<close> by someone who is not the owner\<close>

lemma not_owner_find:
  assumes "\<forall>j\<in>set (jobs d). eq_id (j_id j) (req_job_id b) \<longrightarrow> creator_id j \<noteq> u"
  shows "not_owner (find_existing b d) u"
proof (cases "find_existing b d")
  case None
  then show ?thesis by (simp add: not_owner_def)
next
  case (Some j)
  then have "j \<in> set (filter (\<lambda>j. eq_id (j_id j) (req_job_id b)) (jobs d))"
    unfolding find_existing_def by (rule data_single_mem)
  with assms have "creator_id j \<noteq> u" by simp
  with Some show ?thesis by (simp add: not_owner_def)
qed

text \<open>
  C5. An authenticated \<^verbatim>\<open>update\<close> that names a job id is answered 403, and nothing
  in the datastore changes, whenever no job with that id was created by the requester:
  the job is someone else's, or there is no such job. (A request that names no job id is
  answered 400 before the ownership is looked at.)
\<close>

theorem update_by_non_owner_is_403:
  assumes "http_method rq \<noteq> ''OPTIONS''" and "json rq = Json b"
      and "req_action b = JStr ''update''"
      and "authenticated e rq u"
      and "truthy (req_job_id b)"
      and "\<forall>j\<in>set (jobs d). eq_id (j_id j) (req_job_id b) \<longrightarrow> creator_id j \<noteq> u"
  shows "manage_jobs e rq d = (Response 403 (Error ''Not authorized to update this job''), d)"
proof -
  from assms(4) have u: "session_user e rq = Some u" "u \<noteq> []"
    by (simp_all add: authenticated_def)
  have "action_update e (Some u) b d
          = (Inr (Response 403 (Error ''Not authorized to update this job'')), d)"
    using assms(5) not_owner_find[OF assms(6)] u(2)
    by (simp add: action_update_def require_user_def respond_def)
  with assms(1,2,3) u show ?thesis
    by (simp add: manage_jobs_dispatch dispatch_def)
qed

theorem update_by_non_owner_is_403_witness:
  "authenticated sample_env
     (post_as (Some ''token-binu'')
        (no_fields\<lparr>req_action := JStr ''update'', req_job_id := JStr ''job-1'',
                   req_title := JStr ''Mine now''\<rparr>)) ''binu''
   \<and> manage_jobs sample_env
       (post_as (Some ''token-binu'')
          (no_fields\<lparr>req_action := JStr ''update'', req_job_id := JStr ''job-1'',
                     req_title := JStr ''Mine now''\<rparr>)) sample_db
     = (Response 403 (Error ''Not authorized to update this job''), sample_db)"
proof -
  let ?b = "no_fields\<lparr>req_action := JStr ''update'', req_job_id := JStr ''job-1'',
                     req_title := JStr ''Mine now''\<rparr>"
  let ?rq = "post_as (Some ''token-binu'') ?b"
  have a: "authenticated sample_env ?rq ''binu''"
    by (simp add: authenticated_def session_user_def post_as_def sample_env_def)
  have m: "http_method ?rq \<noteq> ''OPTIONS''" and j: "json ?rq = Json ?b"
    by (simp_all add: post_as_def)
  have k: "req_action ?b = JStr ''update''" and t: "truthy (req_job_id ?b)"
    by simp_all
  have o: "\<forall>j\<in>set (jobs sample_db). eq_id (j_id j) (req_job_id ?b) \<longrightarrow> creator_id j \<noteq> ''binu''"
    by (simp add: sample_db_def eq_id_def tailor_job_def driver_job_def cook_job_def)
  from update_by_non_owner_is_403[OF m j k a t o] a show ?thesis
    by simp
qed

text \<open>
  The job that a request names is the job whose id is the text of its \<^verbatim>\<open>job_id\<close>: an
  update of the creator that gives the id in an array of one element finds the job and
  is carried out.
\<close>

lemma update_by_owner_with_array_job_id:
  "manage_jobs sample_env
     (post_as (Some ''token-asha'')
        (no_fields\<lparr>req_action := JStr ''update'', req_job_id := JOther ''job-1'',
                   req_title := JStr ''Tailor wanted''\<rparr>)) sample_db
   = (Response 200 Success,
      sample_db\<lparr>jobs := [tailor_job\<lparr>title := ''Tailor wanted'', updated_at := 1000\<rparr>,
                          driver_job, cook_job]\<rparr>)"
  by (simp add: handler_defs action_update_def find_existing_def data_single_def not_owner_def
        eq_id_def update_row_def set_column_def try_db_def sample_defs no_fields_def)

section \<open>\<^verbatim>\<open>list\<close>: expired jobs are closed first, and who sees which job\<close>

lemma list_outcome:
  "action_list e userId d =
     (Inr (Response 200
        (Jobs (map (job_with_counts (close_expired e d) userId)
                 (filter (visible userId) (order_desc created_at (jobs (close_expired e d))))))),
      close_expired e d)"
  by (simp add: action_list_def respond_def Let_def)

lemma jobs_close_expired:
  "jobs (close_expired e d) =
     map (\<lambda>j. if status j = ''open'' \<and> (\<exists>t. expires_at j = Some t \<and> t < clock e 1)
               then j\<lparr>status := ''closed'', updated_at := clock e 0\<rparr> else j) (jobs d)"
  by (auto simp: close_expired_def close_job_def expired_def split: option.splits)

lemma no_open_expired:
  assumes "j \<in> set (jobs (close_expired e d))" and "status j = ''open''"
      and "expires_at j = Some t"
  shows "clock e 1 \<le> t"
proof -
  from assms(1) obtain j0 where j0: "j0 \<in> set (jobs d)" "j = close_job e j0"
    by (auto simp: close_expired_def)
  show ?thesis
  proof (cases "expired (clock e 1) j0")
    case True
    with j0 assms(2) show ?thesis by (simp add: close_job_def)
  next
    case False
    with j0 have "j = j0" by (simp add: close_job_def)
    with False assms(2,3) show ?thesis by (simp add: expired_def)
  qed
qed

lemma listed_jobs:
  "jv_job ` set (map (job_with_counts d' userId) (filter (visible userId) (order_desc created_at js)))
     = {j \<in> set js. visible userId j}"
  by (auto simp: set_order_desc job_with_counts_def image_iff)

lemma visible_other:
  "userId \<noteq> Some (creator_id j) \<Longrightarrow>
   visible userId j \<longleftrightarrow> approval_status j = Some ''approved'' \<and> status j = ''open''"
  by (auto simp: visible_def)

lemma visible_creator: "u \<noteq> [] \<Longrightarrow> creator_id j = u \<Longrightarrow> visible (Some u) j"
  by (simp add: visible_def present_def)

text \<open>
  C4. A \<^verbatim>\<open>list\<close> request is answered 200 with a list of jobs. The datastore it leaves
  has every job that was open with an expiry instant before the current time (the
  reading of the clock that bounds the update) set to closed, with \<^verbatim>\<open>updated_at\<close>
  set to the time of the request, and every other job as it was. Every job of the answer
  is a row of that table, read after the update: no job of the answer is open and past
  its expiry.
\<close>

theorem list_closes_expired_jobs_first:
  assumes "http_method rq \<noteq> ''OPTIONS''" and "json rq = Json b"
      and "req_action b = JStr ''list''"
  shows "\<exists>vs d'. manage_jobs e rq d = (Response 200 (Jobs vs), d')
           \<and> jobs d' =
               map (\<lambda>j. if status j = ''open'' \<and> (\<exists>t. expires_at j = Some t \<and> t < clock e 1)
                         then j\<lparr>status := ''closed'', updated_at := clock e 0\<rparr> else j) (jobs d)
           \<and> (\<forall>v\<in>set vs. jv_job v \<in> set (jobs d')
                 \<and> (\<forall>t. status (jv_job v) = ''open'' \<and> expires_at (jv_job v) = Some t
                         \<longrightarrow> clock e 1 \<le> t))"
proof -
  let ?d = "close_expired e d"
  let ?vs = "map (job_with_counts ?d (session_user e rq))
               (filter (visible (session_user e rq)) (order_desc created_at (jobs ?d)))"
  have r: "manage_jobs e rq d = (Response 200 (Jobs ?vs), ?d)"
    using assms by (simp add: manage_jobs_dispatch dispatch_def list_outcome)
  have m: "jv_job v \<in> set (jobs ?d)" if "v \<in> set ?vs" for v
  proof -
    from that have "jv_job v \<in> jv_job ` set ?vs" by (rule imageI)
    then show ?thesis unfolding listed_jobs by simp
  qed
  have "\<forall>v\<in>set ?vs. jv_job v \<in> set (jobs ?d)
           \<and> (\<forall>t. status (jv_job v) = ''open'' \<and> expires_at (jv_job v) = Some t
                   \<longrightarrow> clock e 1 \<le> t)"
    using m no_open_expired by blast
  with r jobs_close_expired[of e d] show ?thesis by blast
qed

theorem list_closes_expired_jobs_first_witness:
  "\<exists>vs d'. manage_jobs sample_env (post_as None (no_fields\<lparr>req_action := JStr ''list''\<rparr>)) sample_db
              = (Response 200 (Jobs vs), d')
     \<and> jobs d' = [tailor_job, driver_job\<lparr>status := ''closed'', updated_at := 1000\<rparr>, cook_job]
     \<and> map jv_job vs = [tailor_job]"
proof -
  let ?b = "no_fields\<lparr>req_action := JStr ''list''\<rparr>"
  let ?rq = "post_as None ?b"
  have m: "http_method ?rq \<noteq> ''OPTIONS''" and j: "json ?rq = Json ?b"
    by (simp_all add: post_as_def)
  have k: "req_action ?b = JStr ''list''"
    by simp
  from list_closes_expired_jobs_first[OF m j k, of sample_env sample_db]
  obtain vs d' where r: "manage_jobs sample_env ?rq sample_db = (Response 200 (Jobs vs), d')"
    and u: "jobs d' =
       map (\<lambda>j. if status j = ''open'' \<and> (\<exists>t. expires_at j = Some t \<and> t < clock sample_env 1)
                 then j\<lparr>status := ''closed'', updated_at := clock sample_env 0\<rparr> else j)
         (jobs sample_db)"
    by blast
  from u have "jobs d' = [tailor_job, driver_job\<lparr>status := ''closed'', updated_at := 1000\<rparr>, cook_job]"
    by (simp add: sample_defs)
  moreover have "map jv_job (case fst (manage_jobs sample_env ?rq sample_db) of
                               Response c (Jobs ws) \<Rightarrow> ws | _ \<Rightarrow> []) = [tailor_job]"
    by (simp add: handler_defs list_outcome close_expired_def close_job_def expired_def
        order_desc_def visible_def present_def job_with_counts_def count_applications_def
        hasApplied_def profile_of_def sample_defs)
  then have "map jv_job vs = [tailor_job]"
    by (simp add: r)
  ultimately have c: "manage_jobs sample_env ?rq sample_db = (Response 200 (Jobs vs), d')
      \<and> jobs d' = [tailor_job, driver_job\<lparr>status := ''closed'', updated_at := 1000\<rparr>, cook_job]
      \<and> map jv_job vs = [tailor_job]"
    using r by simp
  show ?thesis
    by (rule exI[of _ vs], rule exI[of _ d'], rule c)
qed

text \<open>
  C3. A \<^verbatim>\<open>list\<close> request is answered 200 with a list of jobs. Take any job of the
  table the list is read from. For a requester who is not its creator (an anonymous one
  too) the job is in the answer exactly when its approval status is approved and its
  status is open. For its authenticated creator the job is in the answer whatever its
  two states are.
\<close>

theorem list_shows_approved_open_jobs_and_own_jobs:
  assumes "http_method rq \<noteq> ''OPTIONS''" and "json rq = Json b"
      and "req_action b = JStr ''list''"
  shows "\<exists>vs d'. manage_jobs e rq d = (Response 200 (Jobs vs), d')
           \<and> (\<forall>j\<in>set (jobs d').
                 (session_user e rq \<noteq> Some (creator_id j) \<longrightarrow>
                    (j \<in> jv_job ` set vs
                       \<longleftrightarrow> approval_status j = Some ''approved'' \<and> status j = ''open''))
                 \<and> (authenticated e rq (creator_id j) \<longrightarrow> j \<in> jv_job ` set vs))"
proof -
  let ?d = "close_expired e d"
  let ?u = "session_user e rq"
  let ?vs = "map (job_with_counts ?d ?u) (filter (visible ?u) (order_desc created_at (jobs ?d)))"
  have r: "manage_jobs e rq d = (Response 200 (Jobs ?vs), ?d)"
    using assms by (simp add: manage_jobs_dispatch dispatch_def list_outcome)
  have s: "jv_job ` set ?vs = {j \<in> set (jobs ?d). visible ?u j}"
    by (rule listed_jobs)
  have "\<forall>j\<in>set (jobs ?d).
          (?u \<noteq> Some (creator_id j) \<longrightarrow>
             (j \<in> jv_job ` set ?vs
                \<longleftrightarrow> approval_status j = Some ''approved'' \<and> status j = ''open''))
          \<and> (authenticated e rq (creator_id j) \<longrightarrow> j \<in> jv_job ` set ?vs)"
    unfolding s by (auto simp: visible_other authenticated_def visible_creator)
  with r show ?thesis by blast
qed

theorem list_shows_approved_open_jobs_and_own_jobs_witness:
  "authenticated sample_env
     (post_as (Some ''token-binu'') (no_fields\<lparr>req_action := JStr ''list''\<rparr>)) ''binu''
   \<and> (\<exists>vs d'. manage_jobs sample_env
                 (post_as (Some ''token-binu'') (no_fields\<lparr>req_action := JStr ''list''\<rparr>)) sample_db
               = (Response 200 (Jobs vs), d')
        \<and> jobs d' = [tailor_job, driver_job\<lparr>status := ''closed'', updated_at := 1000\<rparr>, cook_job]
        \<and> cook_job \<in> jv_job ` set vs
        \<and> tailor_job \<in> jv_job ` set vs
        \<and> driver_job\<lparr>status := ''closed'', updated_at := 1000\<rparr> \<notin> jv_job ` set vs)"
proof -
  let ?b = "no_fields\<lparr>req_action := JStr ''list''\<rparr>"
  let ?rq = "post_as (Some ''token-binu'') ?b"
  let ?closed = "driver_job\<lparr>status := ''closed'', updated_at := 1000\<rparr>"
  have a: "authenticated sample_env ?rq ''binu''"
    by (simp add: authenticated_def session_user_def post_as_def sample_env_def)
  have m: "http_method ?rq \<noteq> ''OPTIONS''" and j: "json ?rq = Json ?b"
    by (simp_all add: post_as_def)
  have k: "req_action ?b = JStr ''list''"
    by simp
  from list_shows_approved_open_jobs_and_own_jobs[OF m j k, of sample_env sample_db]
  obtain vs d' where r: "manage_jobs sample_env ?rq sample_db = (Response 200 (Jobs vs), d')"
    and v: "\<forall>j\<in>set (jobs d').
              (session_user sample_env ?rq \<noteq> Some (creator_id j) \<longrightarrow>
                 (j \<in> jv_job ` set vs
                    \<longleftrightarrow> approval_status j = Some ''approved'' \<and> status j = ''open''))
              \<and> (authenticated sample_env ?rq (creator_id j) \<longrightarrow> j \<in> jv_job ` set vs)"
    by blast
  have "jobs (snd (manage_jobs sample_env ?rq sample_db)) = [tailor_job, ?closed, cook_job]"
    by (simp add: handler_defs list_outcome close_expired_def close_job_def expired_def
        sample_defs)
  with r have t: "jobs d' = [tailor_job, ?closed, cook_job]"
    by simp
  have s: "session_user sample_env ?rq = Some ''binu''"
    using a by (simp add: authenticated_def)
  from v t a have "cook_job \<in> jv_job ` set vs"
    by (simp add: cook_job_def)
  moreover from v t s have "tailor_job \<in> jv_job ` set vs"
    by (simp add: tailor_job_def)
  moreover from v t s have "?closed \<notin> jv_job ` set vs"
    by (simp add: driver_job_def)
  ultimately have c: "manage_jobs sample_env ?rq sample_db = (Response 200 (Jobs vs), d')
      \<and> jobs d' = [tailor_job, ?closed, cook_job]
      \<and> cook_job \<in> jv_job ` set vs
      \<and> tailor_job \<in> jv_job ` set vs
      \<and> ?closed \<notin> jv_job ` set vs"
    using r t by simp
  have "\<exists>vs d'. manage_jobs sample_env ?rq sample_db = (Response 200 (Jobs vs), d')
      \<and> jobs d' = [tailor_job, ?closed, cook_job]
      \<and> cook_job \<in> jv_job ` set vs
      \<and> tailor_job \<in> jv_job ` set vs
      \<and> ?closed \<notin> jv_job ` set vs"
    by (rule exI[of _ vs], rule exI[of _ d'], rule c)
  with a show ?thesis
    by (rule conjI)
qed


section \<open>\<^verbatim>\<open>get_all_applications\<close>: who may read every application\<close>

lemma live_session_iff:
  assumes "unique_session_tokens d"
  shows "live_session e t d = Some s \<longleftrightarrow>
           s \<in> set (user_sessions d) \<and> session_token s = t \<and> is_active s
           \<and> clock e 0 < s_expires_at s"
proof -
  have "data_single
          (filter (\<lambda>s. session_token s = t \<and> is_active s \<and> clock e 0 < s_expires_at s)
             (user_sessions d)) = Some s
        \<longleftrightarrow> s \<in> set (user_sessions d)
            \<and> (session_token s = t \<and> is_active s \<and> clock e 0 < s_expires_at s)"
    by (rule data_single_filter[where f = session_token and k = t])
       (use assms in \<open>simp_all add: unique_session_tokens_def\<close>)
  then show ?thesis
    by (simp add: live_session_def)
qed

lemma signed_in_iff:
  assumes "unique_session_tokens d" and "x_session_token rq = Some t" and "t \<noteq> []"
  shows "signed_in e rq d u \<longleftrightarrow> (\<exists>s. live_session e t d = Some s \<and> s_user_id s = u)"
  using assms(2,3) by (auto simp: signed_in_def live_session_iff[OF assms(1)])

lemma has_role_iff: "has_role d u \<longleftrightarrow> roles_of d u \<noteq> []"
  by (auto simp: has_role_def roles_of_def filter_empty_conv)

lemma get_all_applications_outcome:
  assumes "http_method rq \<noteq> ''OPTIONS''" and "json rq = Json b"
      and "req_action b = JStr ''get_all_applications''"
  shows "manage_jobs e rq d =
           (case action_get_all_applications e rq d of
              (Inl t, d') \<Rightarrow> (Response 500 (Error (catch_message e t)), d')
            | (Inr r, d') \<Rightarrow> (r, d'))"
  using assms by (simp add: manage_jobs_dispatch dispatch_def)

lemma get_all_applications_200:
  assumes "unique_session_tokens d" and "signed_in e rq d u" and "has_role d u"
  shows "action_get_all_applications e rq d =
           (Inr (Response 200
                   (Applications
                      (map (admin_view d) (order_desc a_created_at (job_applications d))))), d)"
proof -
  from assms(2) obtain t where t: "x_session_token rq = Some t" "t \<noteq> []"
    by (cases "x_session_token rq") (simp_all add: signed_in_def)
  from assms(2) obtain s where s: "live_session e t d = Some s" "s_user_id s = u"
    unfolding signed_in_iff[OF assms(1) t] by blast
  from assms(3) s(2) have "roles_of d (s_user_id s) \<noteq> []"
    by (simp add: has_role_iff)
  with t s(1) show ?thesis
    by (simp add: action_get_all_applications_def respond_def)
qed

lemma get_all_applications_403:
  assumes "unique_session_tokens d" and "signed_in e rq d u" and "\<not> has_role d u"
  shows "action_get_all_applications e rq d =
           (Inr (Response 403 (Error ''Unauthorized: Admin access required'')), d)"
proof -
  from assms(2) obtain t where t: "x_session_token rq = Some t" "t \<noteq> []"
    by (cases "x_session_token rq") (simp_all add: signed_in_def)
  from assms(2) obtain s where s: "live_session e t d = Some s" "s_user_id s = u"
    unfolding signed_in_iff[OF assms(1) t] by blast
  from assms(3) s(2) have "roles_of d (s_user_id s) = []"
    by (simp add: has_role_iff)
  with t s(1) show ?thesis
    by (simp add: action_get_all_applications_def respond_def)
qed

lemma get_all_applications_401:
  assumes "unique_session_tokens d" and "\<forall>u. \<not> signed_in e rq d u"
  shows "\<exists>m. action_get_all_applications e rq d = (Inr (Response 401 (Error m)), d)"
proof (cases "x_session_token rq")
  case None
  then show ?thesis
    by (simp add: action_get_all_applications_def respond_def)
next
  case (Some t)
  show ?thesis
  proof (cases "t = []")
    case True
    with Some show ?thesis
      by (simp add: action_get_all_applications_def respond_def)
  next
    case False
    have "live_session e t d = None"
    proof (rule ccontr)
      assume "live_session e t d \<noteq> None"
      then obtain s where s: "live_session e t d = Some s"
        by blast
      from assms(2) have "\<not> signed_in e rq d (s_user_id s)"
        by blast
      with s show False
        by (simp add: signed_in_iff[OF assms(1) Some False])
    qed
    with Some False show ?thesis
      by (simp add: action_get_all_applications_def respond_def)
  qed
qed

text \<open>
  C9. On a datastore whose session tokens are unique, a \<^verbatim>\<open>get_all_applications\<close>
  request is answered 200 exactly when it carries the token of a live session of a user
  for whom the table of roles holds a row, with whatever role: the answer then holds
  every application of the datastore, each with the mobile number and the email of the
  profile of its applicant. A request of a user with a live session and no row of roles
  is answered 403, and a request that carries no token of a live session is answered
  401; in each case the datastore is left as it was.
\<close>

theorem any_role_reads_all_applications:
  assumes "http_method rq \<noteq> ''OPTIONS''" and "json rq = Json b"
      and "req_action b = JStr ''get_all_applications''"
      and "unique_session_tokens d"
  shows "(signed_in e rq d u \<and> has_role d u \<longrightarrow>
            (\<exists>vs. manage_jobs e rq d = (Response 200 (Applications vs), d)
               \<and> av_application ` set vs = set (job_applications d)
               \<and> (\<forall>v\<in>set vs. \<forall>p. profile_of d (applicant_id (av_application v)) = Some p \<longrightarrow>
                     (\<exists>q. av_profile v = Some q \<and> mobile_number q = mobile_number p
                           \<and> email q = email p))))
         \<and> (signed_in e rq d u \<and> \<not> has_role d u \<longrightarrow>
              manage_jobs e rq d
                = (Response 403 (Error ''Unauthorized: Admin access required''), d))
         \<and> ((\<forall>u'. \<not> signed_in e rq d u') \<longrightarrow>
              (\<exists>m. manage_jobs e rq d = (Response 401 (Error m), d)))
         \<and> (status_code (fst (manage_jobs e rq d)) = 200 \<longleftrightarrow>
              (\<exists>u'. signed_in e rq d u' \<and> has_role d u'))"
proof -
  note mj = get_all_applications_outcome[OF assms(1,2,3)]
  let ?vs = "map (admin_view d) (order_desc a_created_at (job_applications d))"
  have a: "av_application ` set ?vs = set (job_applications d)"
    by (auto simp: set_order_desc admin_view_def image_iff)
  have p: "\<forall>v\<in>set ?vs. \<forall>p. profile_of d (applicant_id (av_application v)) = Some p \<longrightarrow>
                  (\<exists>q. av_profile v = Some q \<and> mobile_number q = mobile_number p
                        \<and> email q = email p)"
    by (auto simp: admin_view_def contact_card_def)
  have ok: "manage_jobs e rq d = (Response 200 (Applications ?vs), d)"
    if "signed_in e rq d w" "has_role d w" for w
    using get_all_applications_200[OF assms(4) that] by (simp add: mj)
  have no: "manage_jobs e rq d
                = (Response 403 (Error ''Unauthorized: Admin access required''), d)"
    if "signed_in e rq d w" "\<not> has_role d w" for w
    using get_all_applications_403[OF assms(4) that] by (simp add: mj)
  have un: "\<exists>m. manage_jobs e rq d = (Response 401 (Error m), d)"
    if h: "\<forall>u'. \<not> signed_in e rq d u'"
  proof -
    from get_all_applications_401[OF assms(4) h] obtain m where
      "action_get_all_applications e rq d = (Inr (Response 401 (Error m)), d)"
      by blast
    then have "manage_jobs e rq d = (Response 401 (Error m), d)"
      by (simp add: mj)
    then show ?thesis
      by (rule exI[of _ m])
  qed
  have c1: "\<exists>vs. manage_jobs e rq d = (Response 200 (Applications vs), d)
               \<and> av_application ` set vs = set (job_applications d)
               \<and> (\<forall>v\<in>set vs. \<forall>p. profile_of d (applicant_id (av_application v)) = Some p \<longrightarrow>
                     (\<exists>q. av_profile v = Some q \<and> mobile_number q = mobile_number p
                           \<and> email q = email p))"
    if "signed_in e rq d u" "has_role d u"
    apply (rule exI[of _ ?vs])
    apply (intro conjI)
      apply (rule ok[OF that])
     apply (rule a)
    apply (rule p)
    done
  have c4: "status_code (fst (manage_jobs e rq d)) = 200 \<longleftrightarrow>
              (\<exists>u'. signed_in e rq d u' \<and> has_role d u')"
  proof (cases "\<exists>u'. signed_in e rq d u'")
    case True
    then obtain w where w: "signed_in e rq d w"
      by blast
    show ?thesis
    proof (cases "has_role d w")
      case True
      with w ok[OF w True] show ?thesis
        by auto
    next
      case False
      have "\<not> has_role d u'" if "signed_in e rq d u'" for u'
      proof
        assume "has_role d u'"
        from ok[OF that this] no[OF w False] show False
          by simp
      qed
      with no[OF w False] show ?thesis
        by auto
    qed
  next
    case False
    then have "\<forall>u'. \<not> signed_in e rq d u'"
      by blast
    from un[OF this] False show ?thesis
      by auto
  qed
  from c1 no un c4 show ?thesis
    by blast
qed

theorem any_role_reads_all_applications_witness:
  "unique_session_tokens sample_db
   \<and> signed_in sample_env
       (post_as (Some ''token-binu'') (no_fields\<lparr>req_action := JStr ''get_all_applications''\<rparr>))
       sample_db ''binu''
   \<and> roles_of sample_db ''binu'' = [''content_moderator'']
   \<and> (\<exists>vs. manage_jobs sample_env
              (post_as (Some ''token-binu'') (no_fields\<lparr>req_action := JStr ''get_all_applications''\<rparr>))
              sample_db
            = (Response 200 (Applications vs), sample_db)
        \<and> map av_application vs = [binu_application]
        \<and> map (map_option mobile_number \<circ> av_profile) vs = [Some (Some ''9000000002'')]
        \<and> map (map_option email \<circ> av_profile) vs = [Some (Some ''binu@example.org'')])
   \<and> manage_jobs sample_env
       (post_as (Some ''token-binu'') (no_fields\<lparr>req_action := JStr ''get_all_applications''\<rparr>))
       (sample_db\<lparr>user_roles := []\<rparr>)
     = (Response 403 (Error ''Unauthorized: Admin access required''),
        sample_db\<lparr>user_roles := []\<rparr>)
   \<and> status_code
        (fst (manage_jobs sample_env
                (post_as (Some ''token-asha'')
                   (no_fields\<lparr>req_action := JStr ''get_all_applications''\<rparr>))
                sample_db)) = 401"
proof -
  let ?b = "no_fields\<lparr>req_action := JStr ''get_all_applications''\<rparr>"
  let ?rq = "post_as (Some ''token-binu'') ?b"
  let ?ra = "post_as (Some ''token-asha'') ?b"
  let ?d = "sample_db\<lparr>user_roles := []\<rparr>"
  have m: "http_method ?rq \<noteq> ''OPTIONS''" and j: "json ?rq = Json ?b"
    by (simp_all add: post_as_def)
  have ma: "http_method ?ra \<noteq> ''OPTIONS''" and ja: "json ?ra = Json ?b"
    by (simp_all add: post_as_def)
  have k: "req_action ?b = JStr ''get_all_applications''"
    by simp
  have q: "unique_session_tokens sample_db"
    by (simp add: unique_session_tokens_def sample_db_def)
  have l: "signed_in sample_env ?rq sample_db ''binu''"
    by (simp add: signed_in_def post_as_def sample_db_def sample_env_def)
  have i: "has_role sample_db ''binu''"
    by (simp add: has_role_def sample_db_def)
  from any_role_reads_all_applications[OF m j k q, where e = sample_env and u = "''binu''",
      THEN conjunct1, rule_format, OF conjI, OF l i]
  obtain vs where r: "manage_jobs sample_env ?rq sample_db = (Response 200 (Applications vs), sample_db)"
    by blast
  have "(case fst (manage_jobs sample_env ?rq sample_db) of
           Response c (Applications ws) \<Rightarrow> ws | _ \<Rightarrow> [])
        = [\<lparr>av_application = binu_application, av_job = Some tailor_job,
            av_profile = Some binu_profile\<rparr>]"
    by (simp add: handler_defs action_get_all_applications_def live_session_def data_single_def
          roles_of_def admin_view_def order_desc_def job_of_def profile_of_def contact_card_def
          sample_defs)
  then have v: "vs = [\<lparr>av_application = binu_application, av_job = Some tailor_job,
            av_profile = Some binu_profile\<rparr>]"
    by (simp add: r)
  have c: "manage_jobs sample_env ?rq sample_db = (Response 200 (Applications vs), sample_db)
        \<and> map av_application vs = [binu_application]
        \<and> map (map_option mobile_number \<circ> av_profile) vs = [Some (Some ''9000000002'')]
        \<and> map (map_option email \<circ> av_profile) vs = [Some (Some ''binu@example.org'')]"
    using r by (simp add: v binu_profile_def)
  have "\<exists>vs. manage_jobs sample_env ?rq sample_db = (Response 200 (Applications vs), sample_db)
        \<and> map av_application vs = [binu_application]
        \<and> map (map_option mobile_number \<circ> av_profile) vs = [Some (Some ''9000000002'')]
        \<and> map (map_option email \<circ> av_profile) vs = [Some (Some ''binu@example.org'')]"
    by (rule exI[of _ vs], rule c)
  moreover have "roles_of sample_db ''binu'' = [''content_moderator'']"
    by (simp add: roles_of_def sample_db_def)
  moreover have "manage_jobs sample_env ?rq ?d
     = (Response 403 (Error ''Unauthorized: Admin access required''), ?d)"
  proof -
    have q': "unique_session_tokens ?d"
      by (simp add: unique_session_tokens_def sample_db_def)
    have l': "signed_in sample_env ?rq ?d ''binu''"
      by (simp add: signed_in_def post_as_def sample_db_def sample_env_def)
    have i': "\<not> has_role ?d ''binu''"
      by (simp add: has_role_def)
    from any_role_reads_all_applications[OF m j k q', where e = sample_env and u = "''binu''",
        THEN conjunct2, THEN conjunct1, THEN mp, OF conjI, OF l' i']
    show ?thesis .
  qed
  moreover have "status_code (fst (manage_jobs sample_env ?ra sample_db)) = 401"
  proof -
    have n: "\<forall>u'. \<not> signed_in sample_env ?ra sample_db u'"
      by (simp add: signed_in_def post_as_def sample_db_def)
    from any_role_reads_all_applications[OF ma ja k q, where e = sample_env and u = "''asha''",
        THEN conjunct2, THEN conjunct2, THEN conjunct1, THEN mp, OF n]
    obtain msg where "manage_jobs sample_env ?ra sample_db = (Response 401 (Error msg), sample_db)"
      by blast
    then show ?thesis
      by simp
  qed
  moreover note q l
  ultimately show ?thesis
    by blast
qed

section \<open>\<^verbatim>\<open>apply\<close>: when an application is refused and when it is inserted\<close>

lemma eq_id_key: "eq_id i v \<Longrightarrow> i = js_String v"
  by (simp add: eq_id_def)

lemma find_existing_iff:
  assumes "unique_job_ids d"
  shows "find_existing b d = Some j \<longleftrightarrow> j \<in> set (jobs d) \<and> eq_id (j_id j) (req_job_id b)"
  unfolding find_existing_def
  by (rule data_single_filter[where f = j_id and k = "js_String (req_job_id b)"])
     (use assms in \<open>simp_all add: unique_job_ids_def eq_id_key\<close>)

lemma find_existing_unique:
  assumes "unique_job_ids d" and "j \<in> set (jobs d)" and "eq_id (j_id j) (req_job_id (b::body))"
      and "j' \<in> set (jobs d)" and "eq_id (j_id j') (req_job_id b)"
  shows "j = j'"
proof -
  from assms(1,2,3) have "find_existing b d = Some j" by (simp add: find_existing_iff)
  moreover from assms(1,4,5) have "find_existing b d = Some j'" by (simp add: find_existing_iff)
  ultimately show ?thesis by simp
qed

lemma job_open_iff:
  assumes "unique_job_ids d"
  shows "job_open (find_existing b d) \<longleftrightarrow>
           (\<exists>j\<in>set (jobs d). eq_id (j_id j) (req_job_id b) \<and> status j = ''open''
               \<and> approval_status j = Some ''approved'')"
proof (cases "find_existing b d")
  case None
  then have "\<And>j. \<not> (j \<in> set (jobs d) \<and> eq_id (j_id j) (req_job_id b))"
    using find_existing_iff[OF assms, of b] by simp
  with None show ?thesis by (auto simp: job_open_def)
next
  case (Some j)
  then have j: "j \<in> set (jobs d)" "eq_id (j_id j) (req_job_id b)"
    using find_existing_iff[OF assms, of b j] by simp_all
  show ?thesis
  proof
    assume "job_open (find_existing b d)"
    with Some j show "\<exists>j\<in>set (jobs d). eq_id (j_id j) (req_job_id b) \<and> status j = ''open''
               \<and> approval_status j = Some ''approved''"
      by (auto simp: job_open_def)
  next
    assume "\<exists>j\<in>set (jobs d). eq_id (j_id j) (req_job_id b) \<and> status j = ''open''
               \<and> approval_status j = Some ''approved''"
    then obtain j' where j': "j' \<in> set (jobs d)" "eq_id (j_id j') (req_job_id b)"
       "status j' = ''open''" "approval_status j' = Some ''approved''"
      by blast
    from find_existing_unique[OF assms j j'(1,2)] have "j = j'" .
    with Some j' show "job_open (find_existing b d)" by (simp add: job_open_def)
  qed
qed

lemma is_owner_iff:
  assumes "unique_job_ids d"
  shows "\<not> not_owner (find_existing b d) u \<longleftrightarrow>
           (\<exists>j\<in>set (jobs d). eq_id (j_id j) (req_job_id b) \<and> creator_id j = u)"
proof (cases "find_existing b d")
  case None
  then have "\<And>j. \<not> (j \<in> set (jobs d) \<and> eq_id (j_id j) (req_job_id b))"
    using find_existing_iff[OF assms, of b] by simp
  with None show ?thesis by (auto simp: not_owner_def)
next
  case (Some j)
  then have j: "j \<in> set (jobs d)" "eq_id (j_id j) (req_job_id b)"
    using find_existing_iff[OF assms, of b j] by simp_all
  show ?thesis
  proof
    assume "\<not> not_owner (find_existing b d) u"
    with Some j show "\<exists>j\<in>set (jobs d). eq_id (j_id j) (req_job_id b) \<and> creator_id j = u"
      by (auto simp: not_owner_def)
  next
    assume "\<exists>j\<in>set (jobs d). eq_id (j_id j) (req_job_id b) \<and> creator_id j = u"
    then obtain j' where j': "j' \<in> set (jobs d)" "eq_id (j_id j') (req_job_id b)" "creator_id j' = u"
      by blast
    from find_existing_unique[OF assms j j'(1,2)] have "j = j'" .
    with Some j' show "\<not> not_owner (find_existing b d) u" by (simp add: not_owner_def)
  qed
qed

lemma existing_application_iff:
  assumes "one_application_each d"
  shows "existing_application u b d \<noteq> None \<longleftrightarrow>
           (\<exists>a\<in>set (job_applications d). eq_id (a_job_id a) (req_job_id b) \<and> applicant_id a = u)"
  unfolding existing_application_def
  by (rule data_maybeSingle_filter[where f = "\<lambda>a. (a_job_id a, applicant_id a)"
        and k = "(js_String (req_job_id b), u)"])
     (use assms in \<open>simp_all add: one_application_each_def eq_id_key\<close>)

lemma apply_refused_iff:
  assumes "unique_job_ids d" and "one_application_each d"
  shows "apply_refused u b d \<longleftrightarrow>
           (\<not> truthy (req_job_id b) \<or> \<not> job_open (find_existing b d)
            \<or> \<not> not_owner (find_existing b d) u \<or> existing_application u b d \<noteq> None)"
  unfolding apply_refused_def job_open_iff[OF assms(1)] is_owner_iff[OF assms(1)]
    existing_application_iff[OF assms(2)] by blast






lemma trim_or_null_text: "text_or_absent v \<Longrightarrow> \<exists>r. trim_or_null f v = Inr r"
  by (cases v) (auto simp: trim_or_null_def)

lemma trim_or_null_other: "\<not> text_or_absent v \<Longrightarrow> \<exists>t. trim_or_null f v = Inl t"
  by (cases v) (auto simp: trim_or_null_def)

lemma apply_400:
  assumes "u \<noteq> []" and "apply_checks u b d"
  shows "\<exists>m. action_apply e (Some u) b d = (Inr (Response 400 (Error m)), d)"
  using assms by (auto simp: apply_checks_def action_apply_def require_user_def respond_def)

lemma apply_insert:
  assumes "u \<noteq> []" and "\<not> apply_checks u b d"
      and "trim_or_null ''message'' (req_message b) = Inr m"
      and "trim_or_null ''education_qualification'' (req_education_qualification b) = Inr q"
      and "trim_or_null ''experience_details'' (req_experience_details b) = Inr x"
      and "\<not> rejects_insert e ''job_applications''"
  shows "action_apply e (Some u) b d =
           (Inr (Response 200 (SuccessMessage ''Application submitted!'')),
            d\<lparr>job_applications := job_applications d @
                 [\<lparr>a_id = new_id e, a_job_id = js_String (req_job_id b), applicant_id = u,
                   message = m, education_qualification = q, experience_details = x,
                   creator_reply = None, replied_at = None, a_created_at = db_now e\<rparr>]\<rparr>)"
proof -
  have s: "action_apply e (Some u) b d =
        try_js (trim_or_null ''message'' (req_message b)) (\<lambda>m.
        try_js (trim_or_null ''education_qualification'' (req_education_qualification b)) (\<lambda>q.
        try_js (trim_or_null ''experience_details'' (req_experience_details b)) (\<lambda>x.
        try_db (insert_application e (js_String (req_job_id b)) u m q x) (\<lambda>a d'.
          respond 200 (SuccessMessage ''Application submitted!'')
            (d'\<lparr>job_applications := job_applications d' @ [a]\<rparr>))))) d"
    using assms(1,2) by (simp add: apply_checks_def action_apply_def require_user_def)
  show ?thesis
    unfolding s assms(3,4,5) try_js_def try_db_def insert_application_def respond_def
    using assms(6) by simp
qed

lemma apply_200:
  assumes "u \<noteq> []" and "\<not> apply_checks u b d"
      and "text_or_absent (req_message b)" and "text_or_absent (req_education_qualification b)"
      and "text_or_absent (req_experience_details b)"
      and "\<not> rejects_insert e ''job_applications''"
  shows "\<exists>a. action_apply e (Some u) b d =
               (Inr (Response 200 (SuccessMessage ''Application submitted!'')),
                d\<lparr>job_applications := job_applications d @ [a]\<rparr>)
             \<and> a_job_id a = js_String (req_job_id b) \<and> applicant_id a = u"
proof -
  from assms(3) obtain m where m: "trim_or_null ''message'' (req_message b) = Inr m"
    using trim_or_null_text by blast
  from assms(4) obtain q where q: "trim_or_null ''education_qualification'' (req_education_qualification b) = Inr q"
    using trim_or_null_text by blast
  from assms(5) obtain x where x: "trim_or_null ''experience_details'' (req_experience_details b) = Inr x"
    using trim_or_null_text by blast
  note t = m q x
  let ?a = "\<lparr>a_id = new_id e, a_job_id = js_String (req_job_id b), applicant_id = u,
                   message = m, education_qualification = q, experience_details = x,
                   creator_reply = None, replied_at = None, a_created_at = db_now e\<rparr>"
  have "action_apply e (Some u) b d =
               (Inr (Response 200 (SuccessMessage ''Application submitted!'')),
                d\<lparr>job_applications := job_applications d @ [?a]\<rparr>)
             \<and> a_job_id ?a = js_String (req_job_id b) \<and> applicant_id ?a = u"
    using apply_insert[OF assms(1,2) t assms(6)] by simp
  then show ?thesis by (rule exI[of _ ?a])
qed

lemma apply_500:
  assumes "u \<noteq> []" and "\<not> apply_checks u b d"
      and "\<not> (text_or_absent (req_message b) \<and> text_or_absent (req_education_qualification b)
              \<and> text_or_absent (req_experience_details b)
              \<and> \<not> rejects_insert e ''job_applications'')"
  shows "\<exists>t. action_apply e (Some u) b d = (Inl t, d)"
proof -
  have s: "action_apply e (Some u) b d =
        try_js (trim_or_null ''message'' (req_message b)) (\<lambda>m.
        try_js (trim_or_null ''education_qualification'' (req_education_qualification b)) (\<lambda>q.
        try_js (trim_or_null ''experience_details'' (req_experience_details b)) (\<lambda>x.
        try_db (insert_application e (js_String (req_job_id b)) u m q x) (\<lambda>a d'.
          respond 200 (SuccessMessage ''Application submitted!'')
            (d'\<lparr>job_applications := job_applications d' @ [a]\<rparr>))))) d"
    using assms(1,2) by (simp add: apply_checks_def action_apply_def require_user_def)
  show ?thesis
  proof (cases "text_or_absent (req_message b)")
    case False
    then obtain t where "trim_or_null ''message'' (req_message b) = Inl t"
      using trim_or_null_other by blast
    then show ?thesis by (simp add: s try_js_def throw_def)
  next
    case m: True
    then obtain m' where m': "trim_or_null ''message'' (req_message b) = Inr m'"
      using trim_or_null_text by blast
    show ?thesis
    proof (cases "text_or_absent (req_education_qualification b)")
      case False
      then obtain t where "trim_or_null ''education_qualification'' (req_education_qualification b) = Inl t"
        using trim_or_null_other by blast
      then show ?thesis by (simp add: s m' try_js_def throw_def)
    next
      case q: True
      then obtain q' where q': "trim_or_null ''education_qualification'' (req_education_qualification b) = Inr q'"
        using trim_or_null_text by blast
      show ?thesis
      proof (cases "text_or_absent (req_experience_details b)")
        case False
        then obtain t where "trim_or_null ''experience_details'' (req_experience_details b) = Inl t"
          using trim_or_null_other by blast
        then show ?thesis by (simp add: s m' q' try_js_def throw_def)
      next
        case x: True
        then obtain x' where x': "trim_or_null ''experience_details'' (req_experience_details b) = Inr x'"
          using trim_or_null_text by blast
        from m q x assms(3) have "rejects_insert e ''job_applications''" by simp
        then show ?thesis
          by (simp add: s m' q' x' try_js_def try_db_def throw_def insert_application_def)
      qed
    qed
  qed
qed


lemma data_single_map: "data_single (map g xs) = map_option g (data_single xs)"
  by (cases xs rule: single.cases) (simp_all add: data_single_def)

lemma find_existing_max_applications:
  "find_existing b (d\<lparr>jobs := map (\<lambda>j. j\<lparr>max_applications := f j\<rparr>) (jobs d)\<rparr>)
     = map_option (\<lambda>j. j\<lparr>max_applications := f j\<rparr>) (find_existing b d)"
  by (simp add: find_existing_def filter_map comp_def data_single_map)

lemma apply_ignores_max_applications:
  "fst (action_apply e userId b (d\<lparr>jobs := map (\<lambda>j. j\<lparr>max_applications := f j\<rparr>) (jobs d)\<rparr>))
     = fst (action_apply e userId b d)"
proof -
  let ?d = "d\<lparr>jobs := map (\<lambda>j. j\<lparr>max_applications := f j\<rparr>) (jobs d)\<rparr>"
  have 1: "job_open (find_existing b ?d) = job_open (find_existing b d)"
    by (cases "find_existing b d") (simp_all add: find_existing_max_applications job_open_def)
  have 2: "not_owner (find_existing b ?d) u = not_owner (find_existing b d) u" for u
    by (cases "find_existing b d") (simp_all add: find_existing_max_applications not_owner_def)
  have 3: "existing_application u b ?d = existing_application u b d" for u
    by (simp add: existing_application_def)
  have chain: "fst (try_js r1 (\<lambda>m.
        try_js r2 (\<lambda>q.
        try_js r3 (\<lambda>x.
        try_db (insert_application e i u m q x) (\<lambda>a d'.
          respond 200 (SuccessMessage ''Application submitted!'')
            (d'\<lparr>job_applications := job_applications d' @ [a]\<rparr>))))) d1)
      = fst (try_js r1 (\<lambda>m.
        try_js r2 (\<lambda>q.
        try_js r3 (\<lambda>x.
        try_db (insert_application e i u m q x) (\<lambda>a d'.
          respond 200 (SuccessMessage ''Application submitted!'')
            (d'\<lparr>job_applications := job_applications d' @ [a]\<rparr>))))) d2)"
    for r1 r2 r3 i u and d1 d2 :: db
    by (cases r1; cases r2; cases r3; cases "insert_application e i u (projr r1) (projr r2) (projr r3)")
       (simp_all add: try_js_def try_db_def respond_def throw_def)
  show ?thesis
  proof (cases userId)
    case None
    then show ?thesis by (simp add: action_apply_def require_user_def respond_def)
  next
    case (Some u)
    show ?thesis
    proof (cases "u = [] \<or> \<not> truthy (req_job_id b) \<or> apply_checks u b d")
      case True
      then show ?thesis
        using 1 2[of u] 3[of u]
        by (auto simp: Some apply_checks_def action_apply_def require_user_def respond_def)
    next
      case False
      then have "action_apply e userId b ?d = try_js (trim_or_null ''message'' (req_message b)) (\<lambda>m.
        try_js (trim_or_null ''education_qualification'' (req_education_qualification b)) (\<lambda>q.
        try_js (trim_or_null ''experience_details'' (req_experience_details b)) (\<lambda>x.
        try_db (insert_application e (js_String (req_job_id b)) u m q x) (\<lambda>a d'.
          respond 200 (SuccessMessage ''Application submitted!'')
            (d'\<lparr>job_applications := job_applications d' @ [a]\<rparr>))))) ?d"
        using 1 2[of u] 3[of u]
        by (simp add: Some apply_checks_def action_apply_def require_user_def)
      moreover from False have "action_apply e userId b d = try_js (trim_or_null ''message'' (req_message b)) (\<lambda>m.
        try_js (trim_or_null ''education_qualification'' (req_education_qualification b)) (\<lambda>q.
        try_js (trim_or_null ''experience_details'' (req_experience_details b)) (\<lambda>x.
        try_db (insert_application e (js_String (req_job_id b)) u m q x) (\<lambda>a d'.
          respond 200 (SuccessMessage ''Application submitted!'')
            (d'\<lparr>job_applications := job_applications d' @ [a]\<rparr>))))) d"
        by (simp add: Some apply_checks_def action_apply_def require_user_def)
      ultimately show ?thesis
        by (simp only: chain)
    qed
  qed
qed




text \<open>
  C8, as the code has it. For an authenticated \<^verbatim>\<open>apply\<close> on a datastore whose job ids
  are unique and that holds at most one application of a user for a job, the answer is
  400 exactly in the four cases the claim names, the job that a request refers to being
  the job whose id is the text of its \<^verbatim>\<open>job_id\<close>. In every other case the application
  is inserted for the user, with the answer 200 (and under the job id of the request
  when that is a string), provided that each of the three text fields of the request is
  a text or absent and that the datastore accepts the row; if not, the answer is 500 and
  nothing is inserted. The column \<^verbatim>\<open>max_applications\<close> has no part in it: with any
  other values in that column the answer is the same.
\<close>

theorem apply_outcomes:
  assumes "http_method rq \<noteq> ''OPTIONS''" and "json rq = Json b"
      and "req_action b = JStr ''apply''"
      and "authenticated e rq u"
      and "unique_job_ids d" and "one_application_each d"
  shows "(status_code (fst (manage_jobs e rq d)) = 400 \<longleftrightarrow> apply_refused u b d)
         \<and> (\<not> apply_refused u b d
              \<and> text_or_absent (req_message b) \<and> text_or_absent (req_education_qualification b)
              \<and> text_or_absent (req_experience_details b)
              \<and> \<not> rejects_insert e ''job_applications''
            \<longrightarrow> (\<exists>a. manage_jobs e rq d =
                        (Response 200 (SuccessMessage ''Application submitted!''),
                         d\<lparr>job_applications := job_applications d @ [a]\<rparr>)
                      \<and> applicant_id a = u
                      \<and> (\<forall>i. req_job_id b = JStr i \<longrightarrow> a_job_id a = i)))
         \<and> (\<not> apply_refused u b d
              \<and> \<not> (text_or_absent (req_message b)
                     \<and> text_or_absent (req_education_qualification b)
                     \<and> text_or_absent (req_experience_details b)
                     \<and> \<not> rejects_insert e ''job_applications'')
            \<longrightarrow> status_code (fst (manage_jobs e rq d)) = 500 \<and> snd (manage_jobs e rq d) = d)
         \<and> (\<forall>f. fst (manage_jobs e rq (d\<lparr>jobs := map (\<lambda>j. j\<lparr>max_applications := f j\<rparr>) (jobs d)\<rparr>))
                  = fst (manage_jobs e rq d))"
proof -
  from assms(4) have u: "session_user e rq = Some u" "u \<noteq> []"
    by (simp_all add: authenticated_def)
  have mj: "manage_jobs e rq d' =
     (case action_apply e (Some u) b d' of
        (Inl t, d'') \<Rightarrow> (Response 500 (Error (catch_message e t)), d'')
      | (Inr r, d'') \<Rightarrow> (r, d''))" for d'
    using assms(1,2,3) u by (simp add: manage_jobs_dispatch dispatch_def)
  have rf: "apply_refused u b d \<longleftrightarrow> apply_checks u b d"
    unfolding apply_checks_def by (rule apply_refused_iff[OF assms(5,6)])
  have p1: "status_code (fst (manage_jobs e rq d)) = 400 \<longleftrightarrow> apply_refused u b d"
  proof (cases "apply_checks u b d")
    case True
    from apply_400[OF u(2) True] obtain m where
      "action_apply e (Some u) b d = (Inr (Response 400 (Error m)), d)" by blast
    with True rf show ?thesis by (simp add: mj)
  next
    case False
    show ?thesis
    proof (cases "text_or_absent (req_message b) \<and> text_or_absent (req_education_qualification b)
              \<and> text_or_absent (req_experience_details b)
              \<and> \<not> rejects_insert e ''job_applications''")
      case True
      with apply_200[OF u(2) False] obtain a where
        "action_apply e (Some u) b d =
               (Inr (Response 200 (SuccessMessage ''Application submitted!'')),
                d\<lparr>job_applications := job_applications d @ [a]\<rparr>)" by blast
      with False rf show ?thesis by (simp add: mj)
    next
      case n: False
      from apply_500[OF u(2) False n] obtain t where
        "action_apply e (Some u) b d = (Inl t, d)" by blast
      with False rf show ?thesis by (simp add: mj)
    qed
  qed
  have p2: "\<exists>a. manage_jobs e rq d =
                        (Response 200 (SuccessMessage ''Application submitted!''),
                         d\<lparr>job_applications := job_applications d @ [a]\<rparr>)
                      \<and> applicant_id a = u
                      \<and> (\<forall>i. req_job_id b = JStr i \<longrightarrow> a_job_id a = i)"
    if h: "\<not> apply_refused u b d" "text_or_absent (req_message b)"
       "text_or_absent (req_education_qualification b)" "text_or_absent (req_experience_details b)"
       "\<not> rejects_insert e ''job_applications''"
  proof -
    from h(1) rf have nc: "\<not> apply_checks u b d" by simp
    from apply_200[OF u(2) nc h(2,3,4,5)] obtain a where a:
      "action_apply e (Some u) b d =
               (Inr (Response 200 (SuccessMessage ''Application submitted!'')),
                d\<lparr>job_applications := job_applications d @ [a]\<rparr>)"
      "a_job_id a = js_String (req_job_id b)" "applicant_id a = u" by blast
    from a(2) have "\<forall>i. req_job_id b = JStr i \<longrightarrow> a_job_id a = i"
      by simp
    with a(1,3) have "manage_jobs e rq d =
                        (Response 200 (SuccessMessage ''Application submitted!''),
                         d\<lparr>job_applications := job_applications d @ [a]\<rparr>)
                      \<and> applicant_id a = u
                      \<and> (\<forall>i. req_job_id b = JStr i \<longrightarrow> a_job_id a = i)"
      by (simp add: mj)
    then show ?thesis by (rule exI[of _ a])
  qed
  have p3: "status_code (fst (manage_jobs e rq d)) = 500 \<and> snd (manage_jobs e rq d) = d"
    if h: "\<not> apply_refused u b d"
      "\<not> (text_or_absent (req_message b)
                     \<and> text_or_absent (req_education_qualification b)
                     \<and> text_or_absent (req_experience_details b)
                     \<and> \<not> rejects_insert e ''job_applications'')"
  proof -
    from h(1) rf have nc: "\<not> apply_checks u b d" by simp
    from apply_500[OF u(2) nc h(2)] obtain t where
      "action_apply e (Some u) b d = (Inl t, d)" by blast
    then show ?thesis by (simp add: mj)
  qed
  have p4: "fst (manage_jobs e rq (d\<lparr>jobs := map (\<lambda>j. j\<lparr>max_applications := f j\<rparr>) (jobs d)\<rparr>))
                  = fst (manage_jobs e rq d)" for f
  proof -
    let ?d = "d\<lparr>jobs := map (\<lambda>j. j\<lparr>max_applications := f j\<rparr>) (jobs d)\<rparr>"
    have "fst (action_apply e (Some u) b ?d) = fst (action_apply e (Some u) b d)"
      by (rule apply_ignores_max_applications)
    then show ?thesis
      by (cases "action_apply e (Some u) b ?d"; cases "action_apply e (Some u) b d")
         (auto simp: mj split: sum.splits)
  qed
  from p1 p2 p3 p4 show ?thesis by blast
qed


theorem apply_outcomes_witness:
  "authenticated sample_env
     (post_as (Some ''token-chitra'')
        (no_fields\<lparr>req_action := JStr ''apply'', req_job_id := JStr ''job-1''\<rparr>)) ''chitra''
   \<and> unique_job_ids sample_db \<and> one_application_each sample_db
   \<and> max_applications tailor_job = Some 1
   \<and> count_applications sample_db ''job-1'' = 1
   \<and> (\<exists>a. manage_jobs sample_env
              (post_as (Some ''token-chitra'')
                 (no_fields\<lparr>req_action := JStr ''apply'', req_job_id := JStr ''job-1''\<rparr>)) sample_db
            = (Response 200 (SuccessMessage ''Application submitted!''),
               sample_db\<lparr>job_applications := job_applications sample_db @ [a]\<rparr>)
        \<and> a_job_id a = ''job-1'' \<and> applicant_id a = ''chitra'')"
proof -
  let ?b = "no_fields\<lparr>req_action := JStr ''apply'', req_job_id := JStr ''job-1''\<rparr>"
  let ?rq = "post_as (Some ''token-chitra'') ?b"
  have a: "authenticated sample_env ?rq ''chitra''"
    by (simp add: authenticated_def session_user_def post_as_def sample_env_def)
  have m: "http_method ?rq \<noteq> ''OPTIONS''" and j: "json ?rq = Json ?b"
    by (simp_all add: post_as_def)
  have k: "req_action ?b = JStr ''apply''"
    by simp
  have u: "unique_job_ids sample_db"
    by (simp add: unique_job_ids_def sample_db_def tailor_job_def driver_job_def cook_job_def)
  have o: "one_application_each sample_db"
    by (simp add: one_application_each_def sample_db_def)
  have n: "\<not> apply_refused ''chitra'' ?b sample_db"
    by (simp add: apply_refused_def eq_id_def sample_db_def tailor_job_def driver_job_def
          cook_job_def binu_application_def)
  have t: "text_or_absent (req_message ?b)" "text_or_absent (req_education_qualification ?b)"
    "text_or_absent (req_experience_details ?b)"
    by (simp_all add: no_fields_def)
  have y: "\<not> rejects_insert sample_env ''job_applications''"
    by (simp add: sample_env_def)
  from apply_outcomes[OF m j k a u o] n t y
  obtain x where x: "manage_jobs sample_env ?rq sample_db
            = (Response 200 (SuccessMessage ''Application submitted!''),
               sample_db\<lparr>job_applications := job_applications sample_db @ [x]\<rparr>)"
     "applicant_id x = ''chitra''" "\<forall>i. req_job_id ?b = JStr i \<longrightarrow> a_job_id x = i"
    by blast
  from x(3) have "a_job_id x = ''job-1''"
    by simp
  with x(1,2) have c: "manage_jobs sample_env ?rq sample_db
            = (Response 200 (SuccessMessage ''Application submitted!''),
               sample_db\<lparr>job_applications := job_applications sample_db @ [x]\<rparr>)
        \<and> a_job_id x = ''job-1'' \<and> applicant_id x = ''chitra''"
    by simp
  have "\<exists>a. manage_jobs sample_env ?rq sample_db
            = (Response 200 (SuccessMessage ''Application submitted!''),
               sample_db\<lparr>job_applications := job_applications sample_db @ [a]\<rparr>)
        \<and> a_job_id a = ''job-1'' \<and> applicant_id a = ''chitra''"
    by (rule exI[of _ x], rule c)
  moreover have "max_applications tailor_job = Some 1"
    by (simp add: tailor_job_def)
  moreover have "count_applications sample_db ''job-1'' = 1"
    by (simp add: count_applications_def sample_db_def binu_application_def)
  ultimately show ?thesis
    using a u o by simp
qed

text \<open>
  An application that gives the job id in an array of one element refers to that job:
  it passes the four tests and is inserted when the datastore accepts the row.
\<close>

lemma apply_with_array_job_id:
  "fst (manage_jobs sample_env
          (post_as (Some ''token-chitra'')
             (no_fields\<lparr>req_action := JStr ''apply'', req_job_id := JOther ''job-1''\<rparr>)) sample_db)
   = Response 200 (SuccessMessage ''Application submitted!'')"
  by (simp add: handler_defs action_apply_def find_existing_def data_single_def job_open_def
        not_owner_def existing_application_def data_maybeSingle_def eq_id_def trim_or_null_def
        insert_application_def try_db_def sample_defs no_fields_def)

text \<open>
  The claim as it is written fails on its words "in every other case the application is
  inserted": a message that is a number makes \<^verbatim>\<open>message?.trim()\<close> throw, and the
  answer is 500 with nothing inserted.
\<close>

theorem apply_not_inserted_counterexample:
  "manage_jobs sample_env
     (post_as (Some ''token-chitra'')
        (no_fields\<lparr>req_action := JStr ''apply'', req_job_id := JStr ''job-1'',
                   req_message := JNum 5\<rparr>)) sample_db
   = (Response 500 (Error ''message?.trim is not a function''), sample_db)"
  by (simp add: handler_defs action_apply_def find_existing_def data_single_def job_open_def
        not_owner_def existing_application_def data_maybeSingle_def eq_id_def trim_or_null_def
        sample_defs)


section \<open>The error answers of \<^verbatim>\<open>manage-jobs\<close>\<close>

lemma codes_respond: "c \<in> {200, 400, 401, 403, 404} \<Longrightarrow> codes_ok (respond c p d)"
  by (simp add: codes_ok_def respond_def)

lemma codes_throw: "codes_ok (throw t d)"
  by (simp add: codes_ok_def throw_def)

lemma codes_try_js: "(\<And>x. codes_ok (k x d)) \<Longrightarrow> codes_ok (try_js r k d)"
  by (cases r) (simp_all add: try_js_def codes_throw)

lemma codes_try_db: "(\<And>x. codes_ok (k x d)) \<Longrightarrow> codes_ok (try_db r k d)"
  by (cases r) (simp_all add: try_db_def codes_throw)

lemma codes_require_user: "(\<And>u. codes_ok (k u d)) \<Longrightarrow> codes_ok (require_user userId k d)"
  by (cases userId) (simp_all add: require_user_def codes_respond)

lemma codes_list: "codes_ok (action_list e userId d)"
  by (simp add: action_list_def Let_def codes_respond)

lemma codes_my_jobs: "codes_ok (action_my_jobs userId d)"
  by (simp add: action_my_jobs_def Let_def codes_respond)

lemma codes_get: "codes_ok (action_get userId b d)"
  unfolding action_get_def
  by (auto intro!: codes_try_db codes_respond simp: Let_def)

lemma codes_create: "codes_ok (action_create e userId b d)"
  unfolding action_create_def
  by (auto intro!: codes_require_user codes_try_js codes_try_db codes_respond)

lemma codes_update: "codes_ok (action_update e userId b d)"
  unfolding action_update_def
  by (auto intro!: codes_require_user codes_try_js codes_try_db codes_respond)

lemma codes_delete: "codes_ok (action_delete userId b d)"
  unfolding action_delete_def
  by (auto intro!: codes_require_user codes_try_js codes_try_db codes_respond)

lemma codes_apply: "codes_ok (action_apply e userId b d)"
  unfolding action_apply_def
  by (auto intro!: codes_require_user codes_try_js codes_try_db codes_respond)

lemma codes_reply: "codes_ok (action_reply e userId b d)"
  unfolding action_reply_def
  by (auto intro!: codes_require_user codes_respond split: option.splits)

lemma codes_get_all: "codes_ok (action_get_all_applications e rq d)"
  unfolding action_get_all_applications_def
  by (simp add: codes_respond split: option.splits)

lemma codes_my_applications: "codes_ok (action_my_applications userId d)"
  unfolding action_my_applications_def
  by (intro codes_require_user codes_respond) simp

lemma codes_check_business_owner: "codes_ok (action_check_business_owner userId d)"
  unfolding action_check_business_owner_def
  by (intro codes_require_user codes_respond) simp

lemma codes_dispatch: "codes_ok (dispatch e rq userId b d)"
  by (simp add: dispatch_def codes_list codes_my_jobs codes_get codes_create codes_update
        codes_delete codes_apply codes_reply codes_get_all codes_my_applications
        codes_check_business_owner codes_respond)

lemma codes_manage_jobs:
  "status_code (fst (manage_jobs e rq d)) \<in> {200, 400, 401, 403, 404, 500}"
proof (cases "http_method rq = ''OPTIONS''")
  case True
  then show ?thesis by (simp add: manage_jobs_def)
next
  case False
  have "codes_ok (manage_jobs_try e rq d)"
    by (cases "json rq") (simp_all add: manage_jobs_try_def codes_throw codes_dispatch)
  with False show ?thesis
    by (cases "manage_jobs_try e rq d")
       (auto simp: manage_jobs_def codes_ok_def split: sum.splits)
qed

lemma internal_error_throw:
  "internal_error (throw t d) = (Response 500 (Error ''Internal server error''), d)"
  by (simp add: internal_error_def throw_def)

text \<open>
  C1, as the code has it, for the handler \<^verbatim>\<open>manage-jobs\<close>. Every answer has one of
  the status codes 200, 400, 401, 403, 404, 500. A body that is not JSON is answered 500
  with the message of the parser, and whatever the \<^verbatim>\<open>try\<close> block throws is answered
  500 with the message of the thrown error when it is an instance of \<^verbatim>\<open>Error\<close>, and
  with "Unknown error" when it is not. A \<^verbatim>\<open>get\<close> without a job id is answered 400; a
  \<^verbatim>\<open>get\<close> of a job that exists and that the requester may not see is answered 404.
  The actions that need a user are answered 401 without one. (The 403 of an update by
  someone who is not the owner is the theorem on \<^verbatim>\<open>update\<close> above.) What a
  \<^verbatim>\<open>get\<close> answers for an id that matches no job is not part of the statement.
\<close>

theorem manage_jobs_error_responses:
  assumes "http_method rq \<noteq> ''OPTIONS''"
  shows "status_code (fst (manage_jobs e rq d)) \<in> {200, 400, 401, 403, 404, 500}
    \<and> (\<forall>m. json rq = Unparsable m \<longrightarrow> manage_jobs e rq d = (Response 500 (Error m), d))
    \<and> (\<forall>t d'. manage_jobs_try e rq d = (Inl t, d') \<longrightarrow>
          manage_jobs e rq d = (Response 500 (Error (catch_message e t)), d'))
    \<and> (\<forall>b. json rq = Json b \<and> req_action b = JStr ''get'' \<and> \<not> truthy (req_job_id b) \<longrightarrow>
          manage_jobs e rq d = (Response 400 (Error ''Job ID required''), d))
    \<and> (\<forall>b j. json rq = Json b \<and> req_action b = JStr ''get'' \<and> truthy (req_job_id b)
            \<and> filter (\<lambda>j. eq_id (j_id j) (req_job_id b)) (jobs d) = [j]
            \<and> session_user e rq \<noteq> Some (creator_id j)
            \<and> \<not> (approval_status j = Some ''approved'' \<and> status j = ''open'') \<longrightarrow>
          manage_jobs e rq d = (Response 404 (Error ''Job not found or access denied''), d))
    \<and> (\<forall>b. json rq = Json b \<and> \<not> present (session_user e rq)
            \<and> req_action b \<in> JStr ` {''my_jobs'', ''create'', ''update'', ''delete'', ''apply'',
                                       ''reply'', ''my_applications'', ''check_business_owner''} \<longrightarrow>
          manage_jobs e rq d = (Response 401 (Error ''Authentication required''), d))"
proof -
  have p1: "status_code (fst (manage_jobs e rq d)) \<in> {200, 400, 401, 403, 404, 500}"
    by (rule codes_manage_jobs)
  have p2: "manage_jobs e rq d = (Response 500 (Error m), d)" if "json rq = Unparsable m" for m
    using assms that
    by (simp add: manage_jobs_def manage_jobs_try_def throw_def catch_message_def)
  have p3: "manage_jobs e rq d = (Response 500 (Error (catch_message e t)), d')"
    if "manage_jobs_try e rq d = (Inl t, d')" for t d'
    using assms that by (simp add: manage_jobs_def)
  have p4: "manage_jobs e rq d = (Response 400 (Error ''Job ID required''), d)"
    if "json rq = Json b" "req_action b = JStr ''get''" "\<not> truthy (req_job_id b)" for b
    using assms that
    by (simp add: manage_jobs_dispatch dispatch_def action_get_def respond_def)
  have p5: "manage_jobs e rq d = (Response 404 (Error ''Job not found or access denied''), d)"
    if "json rq = Json b" "req_action b = JStr ''get''" "truthy (req_job_id b)"
       "filter (\<lambda>j. eq_id (j_id j) (req_job_id b)) (jobs d) = [j]"
       "session_user e rq \<noteq> Some (creator_id j)"
       "\<not> (approval_status j = Some ''approved'' \<and> status j = ''open'')" for b j
  proof -
    from that(5,6) have "\<not> canView (session_user e rq) j"
      by (auto simp: canView_def)
    with assms that(1,2,3,4) show ?thesis
      by (simp add: manage_jobs_dispatch dispatch_def action_get_def respond_def try_db_def)
  qed
  have p6: "manage_jobs e rq d = (Response 401 (Error ''Authentication required''), d)"
    if "json rq = Json b" "\<not> present (session_user e rq)"
       "req_action b \<in> JStr ` {''my_jobs'', ''create'', ''update'', ''delete'', ''apply'',
                                       ''reply'', ''my_applications'', ''check_business_owner''}" for b
  proof -
    have r: "require_user (session_user e rq) k d = respond 401 (Error ''Authentication required'') d" for k
      using that(2) by (cases "session_user e rq") (simp_all add: require_user_def present_def)
    from that(3) consider "req_action b = JStr ''my_jobs''" | "req_action b = JStr ''create''"
      | "req_action b = JStr ''update''" | "req_action b = JStr ''delete''"
      | "req_action b = JStr ''apply''" | "req_action b = JStr ''reply''"
      | "req_action b = JStr ''my_applications''" | "req_action b = JStr ''check_business_owner''"
      by auto
    then show ?thesis
    proof cases
      case 1
      with assms that(1,2) show ?thesis
        by (simp add: manage_jobs_dispatch dispatch_def action_my_jobs_def respond_def)
    next
      case 2
      with assms that(1) show ?thesis
        by (simp add: manage_jobs_dispatch dispatch_def action_create_def r respond_def)
    next
      case 3
      with assms that(1) show ?thesis
        by (simp add: manage_jobs_dispatch dispatch_def action_update_def r respond_def)
    next
      case 4
      with assms that(1) show ?thesis
        by (simp add: manage_jobs_dispatch dispatch_def action_delete_def r respond_def)
    next
      case 5
      with assms that(1) show ?thesis
        by (simp add: manage_jobs_dispatch dispatch_def action_apply_def r respond_def)
    next
      case 6
      with assms that(1) show ?thesis
        by (simp add: manage_jobs_dispatch dispatch_def action_reply_def r respond_def)
    next
      case 7
      with assms that(1) show ?thesis
        by (simp add: manage_jobs_dispatch dispatch_def action_my_applications_def r respond_def)
    next
      case 8
      with assms that(1) show ?thesis
        by (simp add: manage_jobs_dispatch dispatch_def action_check_business_owner_def r respond_def)
    qed
  qed
  show ?thesis
    apply (intro conjI allI impI)
         apply (rule p1)
        apply (erule p2)
       apply (erule p3)
      apply (elim conjE, erule (2) p4)
     apply (elim conjE, erule (5) p5)
    apply (elim conjE, erule (2) p6)
    done
qed


theorem manage_jobs_error_responses_witness:
  "manage_jobs sample_env
     \<lparr>http_method = ''POST'', x_session_token = None, json = Unparsable ''Unexpected end of JSON input''\<rparr>
     sample_db
     = (Response 500 (Error ''Unexpected end of JSON input''), sample_db)
   \<and> manage_jobs sample_env (post_as None (no_fields\<lparr>req_action := JStr ''get''\<rparr>)) sample_db
     = (Response 400 (Error ''Job ID required''), sample_db)
   \<and> manage_jobs sample_env
       (post_as (Some ''token-chitra'')
          (no_fields\<lparr>req_action := JStr ''get'', req_job_id := JStr ''job-3''\<rparr>)) sample_db
     = (Response 404 (Error ''Job not found or access denied''), sample_db)
   \<and> manage_jobs sample_env (post_as None (no_fields\<lparr>req_action := JStr ''my_jobs''\<rparr>)) sample_db
     = (Response 401 (Error ''Authentication required''), sample_db)"
proof -
  let ?r1 = "\<lparr>http_method = ''POST'', x_session_token = None,
              json = Unparsable ''Unexpected end of JSON input''\<rparr> :: body request"
  let ?b2 = "no_fields\<lparr>req_action := JStr ''get''\<rparr>"
  let ?b3 = "no_fields\<lparr>req_action := JStr ''get'', req_job_id := JStr ''job-3''\<rparr>"
  let ?b4 = "no_fields\<lparr>req_action := JStr ''my_jobs''\<rparr>"
  have m1: "http_method ?r1 \<noteq> ''OPTIONS''"
    by simp
  have m: "http_method (post_as t b) \<noteq> ''OPTIONS''" for t and b :: body
    by (simp add: post_as_def)
  have j1: "json ?r1 = Unparsable ''Unexpected end of JSON input''"
    by simp
  have h2: "json (post_as None ?b2) = Json ?b2 \<and> req_action ?b2 = JStr ''get''
            \<and> \<not> truthy (req_job_id ?b2)"
    by (simp add: post_as_def no_fields_def)
  have h3: "json (post_as (Some ''token-chitra'') ?b3) = Json ?b3 \<and> req_action ?b3 = JStr ''get''
            \<and> truthy (req_job_id ?b3)
            \<and> filter (\<lambda>j. eq_id (j_id j) (req_job_id ?b3)) (jobs sample_db) = [cook_job]
            \<and> session_user sample_env (post_as (Some ''token-chitra'') ?b3) \<noteq> Some (creator_id cook_job)
            \<and> \<not> (approval_status cook_job = Some ''approved'' \<and> status cook_job = ''open'')"
    by (simp add: post_as_def session_user_def eq_id_def sample_env_def sample_db_def
          tailor_job_def driver_job_def cook_job_def)
  have h4: "json (post_as None ?b4) = Json ?b4 \<and> \<not> present (session_user sample_env (post_as None ?b4))
            \<and> req_action ?b4 \<in> JStr ` {''my_jobs'', ''create'', ''update'', ''delete'', ''apply'',
                                       ''reply'', ''my_applications'', ''check_business_owner''}"
    by (simp add: post_as_def session_user_def present_def)
  note t1 = manage_jobs_error_responses[OF m1, of sample_env sample_db]
  note t2 = manage_jobs_error_responses[OF m, of sample_env None ?b2 sample_db]
  note t3 = manage_jobs_error_responses[OF m, of sample_env "Some ''token-chitra''" ?b3 sample_db]
  note t4 = manage_jobs_error_responses[OF m, of sample_env None ?b4 sample_db]
  from t1 j1 have "manage_jobs sample_env ?r1 sample_db
      = (Response 500 (Error ''Unexpected end of JSON input''), sample_db)"
    by (elim conjE allE[of _ "''Unexpected end of JSON input''"]) (erule mp, assumption)
  moreover from t2 h2 have "manage_jobs sample_env (post_as None ?b2) sample_db
      = (Response 400 (Error ''Job ID required''), sample_db)"
    by (elim conjE) (erule allE[of _ ?b2], erule mp, intro conjI, assumption+)
  moreover from t3[THEN conjunct2, THEN conjunct2, THEN conjunct2, THEN conjunct2,
      THEN conjunct1, rule_format, of ?b3 cook_job] h3
  have "manage_jobs sample_env (post_as (Some ''token-chitra'') ?b3) sample_db
      = (Response 404 (Error ''Job not found or access denied''), sample_db)"
    by simp
  moreover from t4[THEN conjunct2, THEN conjunct2, THEN conjunct2, THEN conjunct2,
      THEN conjunct2, rule_format, of ?b4] h4
  have "manage_jobs sample_env (post_as None ?b4) sample_db
      = (Response 401 (Error ''Authentication required''), sample_db)"
    by simp
  ultimately show ?thesis
    by simp
qed

text \<open>
  The claim as it is written fails in both of its particular cases: a \<^verbatim>\<open>get\<close> of an id
  that matches no job is answered 500, since \<^verbatim>\<open>.single()\<close> reports an error that the
  handler throws, and the answer to a body that is not JSON carries the message of the
  parser, not a generic one.
\<close>

theorem get_unknown_job_is_500_counterexample:
  "manage_jobs sample_env
     (post_as None (no_fields\<lparr>req_action := JStr ''get'', req_job_id := JStr ''job-404''\<rparr>))
     sample_db
     = (Response 500 (Error ''Unknown error''), sample_db)
   \<and> manage_jobs sample_env
       \<lparr>http_method = ''POST'', x_session_token = None,
        json = Unparsable ''Unexpected token < in JSON at position 0''\<rparr> sample_db
     = (Response 500 (Error ''Unexpected token < in JSON at position 0''), sample_db)"
  by (simp add: handler_defs action_get_def eq_id_def sample_defs)


section \<open>\<^verbatim>\<open>create-post\<close> and \<^verbatim>\<open>create-business\<close>: no session is looked up\<close>


lemma respond_sessions:
  "respond c p (d\<lparr>user_sessions := ss\<rparr>) = (fst (respond c p d), (snd (respond c p d))\<lparr>user_sessions := ss\<rparr>)"
  by (simp add: respond_def)

lemma insert_post_env: "insert_post (e\<lparr>validate_session := v\<rparr>) u c i y = insert_post e u c i y"
  by (simp add: insert_post_def)

lemma create_post_checked_sessions:
  "create_post_checked (e\<lparr>validate_session := v\<rparr>) b (d\<lparr>user_sessions := ss\<rparr>)
     = (fst (create_post_checked e b d), (snd (create_post_checked e b d))\<lparr>user_sessions := ss\<rparr>)"
  by (simp add: create_post_checked_def insert_post_env respond_def split: sum.splits)

lemma upsert_profile_sessions:
  "upsert_profile (e\<lparr>validate_session := v\<rparr>) x (d\<lparr>user_sessions := ss\<rparr>)
     = map_sum id (\<lambda>d'. d'\<lparr>user_sessions := ss\<rparr>) (upsert_profile e x d)"
  by (cases x) (simp_all add: upsert_profile_def)

lemma create_post_try_sessions:
  "create_post_try (e\<lparr>validate_session := v\<rparr>) b (d\<lparr>user_sessions := ss\<rparr>)
     = (fst (create_post_try e b d), (snd (create_post_try e b d))\<lparr>user_sessions := ss\<rparr>)"
  by (cases "upsert_profile e (cp_user_id b) d")
     (simp_all add: create_post_try_def upsert_profile_sessions create_post_checked_sessions respond_def)

lemma internal_error_sessions:
  "r' = (fst r, (snd r)\<lparr>user_sessions := ss\<rparr>) \<Longrightarrow>
   internal_error r' = (fst (internal_error r), (snd (internal_error r))\<lparr>user_sessions := ss\<rparr>)"
  by (cases r; cases "fst r") (auto simp: internal_error_def)

lemma create_post_sessions:
  "create_post (e\<lparr>validate_session := v\<rparr>) (rq\<lparr>x_session_token := t\<rparr>) (d\<lparr>user_sessions := ss\<rparr>)
     = (fst (create_post e rq d), (snd (create_post e rq d))\<lparr>user_sessions := ss\<rparr>)"
  by (cases "json rq")
     (simp_all add: create_post_def internal_error_sessions create_post_try_sessions throw_def)

lemma insert_business_env: "insert_business (e\<lparr>validate_session := v\<rparr>) b = insert_business e b"
  by (simp add: insert_business_def)

lemma create_business_try_sessions:
  "create_business_try (e\<lparr>validate_session := v\<rparr>) b (d\<lparr>user_sessions := ss\<rparr>)
     = (fst (create_business_try e b d), (snd (create_business_try e b d))\<lparr>user_sessions := ss\<rparr>)"
  by (simp add: create_business_try_def insert_business_env respond_def split: sum.splits)

lemma create_business_sessions:
  "create_business (e\<lparr>validate_session := v\<rparr>) (rq\<lparr>x_session_token := t\<rparr>) (d\<lparr>user_sessions := ss\<rparr>)
     = (fst (create_business e rq d), (snd (create_business e rq d))\<lparr>user_sessions := ss\<rparr>)"
  by (cases "json rq")
     (simp_all add: create_business_def internal_error_sessions create_business_try_sessions throw_def)



lemma create_post_checked_ok:
  assumes "truthy (cp_content b)" and "\<not> rejects_insert e ''posts''" and "cp_user_id b = JStr u"
  shows "\<exists>p. create_post_checked e b d = (Inr (Response 200 (PostCreated p)), d\<lparr>posts := posts d @ [p]\<rparr>)
             \<and> post_user_id p = u"
proof -
  let ?p = "\<lparr>post_id = new_id e, post_user_id = u,
             content = (if js_or (cp_content b) JNull = JNull then None
                        else Some (js_String (js_or (cp_content b) JNull))),
             image_url = (if js_or (cp_image_url b) JNull = JNull then None
                          else Some (js_String (js_or (cp_image_url b) JNull))),
             youtube_url = (if js_or (cp_youtube_url b) JNull = JNull then None
                            else Some (js_String (js_or (cp_youtube_url b) JNull)))\<rparr>"
  have "create_post_checked e b d = (Inr (Response 200 (PostCreated ?p)), d\<lparr>posts := posts d @ [?p]\<rparr>)
             \<and> post_user_id ?p = u"
    using assms by (simp add: create_post_checked_def insert_post_def respond_def js_String.simps)
  then show ?thesis by (rule exI[of _ ?p])
qed

lemma create_post_try_ok:
  assumes "cp_user_id b = JStr u" and "u \<noteq> []" and "truthy (cp_content b)"
      and "\<not> rejects_insert e ''posts''" and "\<not> rejects_insert e ''profiles''"
  shows "\<exists>p d'. create_post_try e b d = (Inr (Response 200 (PostCreated p)), d')
             \<and> posts d' = posts d @ [p] \<and> post_user_id p = u"
proof -
  obtain d1 where d1: "create_post_try e b d = create_post_checked e b d1" "posts d1 = posts d"
  proof (cases "data_maybeSingle (filter (\<lambda>p. eq_id (p_id p) (cp_user_id b)) (profiles d)) = None")
    case False
    with assms(1,2) have "create_post_try e b d = create_post_checked e b d"
      by (auto simp: create_post_try_def)
    then show ?thesis using that by simp
  next
    case True
    show ?thesis
    proof (cases "u \<in> set (map p_id (profiles d))")
      case t: True
      with True assms(1,2) have "create_post_try e b d = create_post_checked e b d"
        by (simp add: create_post_try_def upsert_profile_def)
      then show ?thesis using that by simp
    next
      case False
      with True assms(1,2,5)
      have "create_post_try e b d
              = create_post_checked e b (d\<lparr>profiles := profiles d @ [new_profile u]\<rparr>)"
        by (simp add: create_post_try_def upsert_profile_def)
      then show ?thesis using that by simp
    qed
  qed
  from create_post_checked_ok[OF assms(3,4,1), of d1] obtain p where
    p: "create_post_checked e b d1 = (Inr (Response 200 (PostCreated p)), d1\<lparr>posts := posts d1 @ [p]\<rparr>)"
       "post_user_id p = u" by blast
  have "create_post_try e b d = (Inr (Response 200 (PostCreated p)), d1\<lparr>posts := posts d1 @ [p]\<rparr>)
          \<and> posts (d1\<lparr>posts := posts d1 @ [p]\<rparr>) = posts d @ [p] \<and> post_user_id p = u"
    using d1 p by simp
  then show ?thesis by blast
qed

lemma create_business_try_ok:
  assumes "cb_user_id b = JStr u" and "u \<noteq> []" and "truthy (cb_name b)"
      and "filter (\<lambda>p. p_id p = u) (profiles d) = [pr]"
      and "\<not> rejects_insert e ''businesses''"
  shows "\<exists>x. create_business_try e b d
               = (Inr (Response 200 (BusinessCreated x)), d\<lparr>businesses := businesses d @ [x]\<rparr>)
             \<and> owner_id x = u"
proof -
  have e: "(\<lambda>p. eq_id (p_id p) (cb_user_id b)) = (\<lambda>p. p_id p = u)"
    by (auto simp: assms(1) eq_id_def)
  have "filter (\<lambda>p. eq_id (p_id p) (cb_user_id b)) (profiles d) = [pr]"
    unfolding e by (rule assms(4))
  then have f: "data_maybeSingle (filter (\<lambda>p. eq_id (p_id p) (cb_user_id b)) (profiles d)) \<noteq> None"
    by (simp add: data_maybeSingle_def)
  obtain x where x: "insert_business e b = Inr x" "owner_id x = u"
    using assms(1,5) by (simp add: insert_business_def js_String.simps)
  have "create_business_try e b d
               = (Inr (Response 200 (BusinessCreated x)), d\<lparr>businesses := businesses d @ [x]\<rparr>)
             \<and> owner_id x = u"
    using assms(1,2,3) f x by (simp add: create_business_try_def respond_def)
  then show ?thesis by (rule exI[of _ x])
qed


text \<open>
  C2, as the code has it. The answer and the effect of \<^verbatim>\<open>create-post\<close> and of
  \<^verbatim>\<open>create-business\<close> do not depend on the session token of the request, on the
  stored procedure that validates sessions, or on the table of sessions: no session is
  looked up. \<^verbatim>\<open>create-post\<close> inserts a post for the user id of the body as soon as the
  post has a content and the datastore accepts the rows (a profile of that id is created
  when there is none); \<^verbatim>\<open>create-business\<close> inserts a business owned by the user id of
  the body as soon as a profile of that id exists, a name is given and the datastore
  accepts the row.
\<close>

theorem create_post_and_create_business_trust_the_user_id:
  "create_post (e\<lparr>validate_session := v\<rparr>) (rp\<lparr>x_session_token := t\<rparr>) (d\<lparr>user_sessions := ss\<rparr>)
     = (fst (create_post e rp d), (snd (create_post e rp d))\<lparr>user_sessions := ss\<rparr>)
   \<and> create_business (e\<lparr>validate_session := v\<rparr>) (rb\<lparr>x_session_token := t\<rparr>)
         (d\<lparr>user_sessions := ss\<rparr>)
     = (fst (create_business e rb d), (snd (create_business e rb d))\<lparr>user_sessions := ss\<rparr>)
   \<and> (http_method rp \<noteq> ''OPTIONS'' \<and> json rp = Json bp \<and> cp_user_id bp = JStr u \<and> u \<noteq> []
        \<and> truthy (cp_content bp)
        \<and> \<not> rejects_insert e ''posts'' \<and> \<not> rejects_insert e ''profiles''
      \<longrightarrow> (\<exists>p d'. create_post e rp d = (Response 200 (PostCreated p), d')
                   \<and> posts d' = posts d @ [p] \<and> post_user_id p = u))
   \<and> (http_method rb \<noteq> ''OPTIONS'' \<and> json rb = Json bb \<and> cb_user_id bb = JStr u \<and> u \<noteq> []
        \<and> truthy (cb_name bb) \<and> filter (\<lambda>p. p_id p = u) (profiles d) = [pr]
        \<and> \<not> rejects_insert e ''businesses''
      \<longrightarrow> (\<exists>x. create_business e rb d
                    = (Response 200 (BusinessCreated x), d\<lparr>businesses := businesses d @ [x]\<rparr>)
                \<and> owner_id x = u))"
proof (intro conjI impI)
  show "create_post (e\<lparr>validate_session := v\<rparr>) (rp\<lparr>x_session_token := t\<rparr>) (d\<lparr>user_sessions := ss\<rparr>)
     = (fst (create_post e rp d), (snd (create_post e rp d))\<lparr>user_sessions := ss\<rparr>)"
    by (rule create_post_sessions)
  show "create_business (e\<lparr>validate_session := v\<rparr>) (rb\<lparr>x_session_token := t\<rparr>)
         (d\<lparr>user_sessions := ss\<rparr>)
     = (fst (create_business e rb d), (snd (create_business e rb d))\<lparr>user_sessions := ss\<rparr>)"
    by (rule create_business_sessions)
next
  assume h: "http_method rp \<noteq> ''OPTIONS'' \<and> json rp = Json bp \<and> cp_user_id bp = JStr u \<and> u \<noteq> []
        \<and> truthy (cp_content bp)
        \<and> \<not> rejects_insert e ''posts'' \<and> \<not> rejects_insert e ''profiles''"
  then have "\<exists>p d'. create_post_try e bp d = (Inr (Response 200 (PostCreated p)), d')
             \<and> posts d' = posts d @ [p] \<and> post_user_id p = u"
    by (intro create_post_try_ok) simp_all
  then obtain p d' where "create_post_try e bp d = (Inr (Response 200 (PostCreated p)), d')"
    "posts d' = posts d @ [p]" "post_user_id p = u"
    by blast
  with h have "create_post e rp d = (Response 200 (PostCreated p), d')
                   \<and> posts d' = posts d @ [p] \<and> post_user_id p = u"
    by (simp add: create_post_def internal_error_def)
  then show "\<exists>p d'. create_post e rp d = (Response 200 (PostCreated p), d')
                   \<and> posts d' = posts d @ [p] \<and> post_user_id p = u"
    by (rule_tac x = p in exI, rule_tac x = d' in exI)
next
  assume h: "http_method rb \<noteq> ''OPTIONS'' \<and> json rb = Json bb \<and> cb_user_id bb = JStr u \<and> u \<noteq> []
        \<and> truthy (cb_name bb) \<and> filter (\<lambda>p. p_id p = u) (profiles d) = [pr]
        \<and> \<not> rejects_insert e ''businesses''"
  then have "\<exists>x. create_business_try e bb d
               = (Inr (Response 200 (BusinessCreated x)), d\<lparr>businesses := businesses d @ [x]\<rparr>)
             \<and> owner_id x = u"
    by (intro create_business_try_ok[where pr = pr]) simp_all
  then obtain x where "create_business_try e bb d
               = (Inr (Response 200 (BusinessCreated x)), d\<lparr>businesses := businesses d @ [x]\<rparr>)"
    "owner_id x = u"
    by blast
  with h have "create_business e rb d
                    = (Response 200 (BusinessCreated x), d\<lparr>businesses := businesses d @ [x]\<rparr>)
                \<and> owner_id x = u"
    by (simp add: create_business_def internal_error_def)
  then show "\<exists>x. create_business e rb d
                    = (Response 200 (BusinessCreated x), d\<lparr>businesses := businesses d @ [x]\<rparr>)
                \<and> owner_id x = u"
    by (rule exI[of _ x])
qed

theorem create_post_and_create_business_trust_the_user_id_witness:
  "(\<exists>p d'. create_post sample_env (post_as None hello_post) sample_db
              = (Response 200 (PostCreated p), d')
        \<and> posts d' = posts sample_db @ [p] \<and> post_user_id p = ''asha'')
   \<and> (\<exists>x. create_business sample_env (post_as None tea_shop) sample_db
              = (Response 200 (BusinessCreated x),
                 sample_db\<lparr>businesses := businesses sample_db @ [x]\<rparr>)
        \<and> owner_id x = ''asha'')"
proof -
  have hp: "http_method (post_as None hello_post) \<noteq> ''OPTIONS''
        \<and> json (post_as None hello_post) = Json hello_post
        \<and> cp_user_id hello_post = JStr ''asha'' \<and> ''asha'' \<noteq> []
        \<and> truthy (cp_content hello_post)
        \<and> \<not> rejects_insert sample_env ''posts'' \<and> \<not> rejects_insert sample_env ''profiles''"
    by (simp add: post_as_def hello_post_def sample_env_def)
  have hb: "http_method (post_as None tea_shop) \<noteq> ''OPTIONS''
        \<and> json (post_as None tea_shop) = Json tea_shop
        \<and> cb_user_id tea_shop = JStr ''asha'' \<and> ''asha'' \<noteq> []
        \<and> truthy (cb_name tea_shop)
        \<and> filter (\<lambda>p. p_id p = ''asha'') (profiles sample_db) = [asha_profile]
        \<and> \<not> rejects_insert sample_env ''businesses''"
    by (simp add: post_as_def tea_shop_def sample_env_def sample_db_def asha_profile_def
          binu_profile_def)
  note t = create_post_and_create_business_trust_the_user_id
      [where e = sample_env and rp = "post_as None hello_post" and d = sample_db
         and rb = "post_as None tea_shop" and bp = hello_post and u = "''asha''"
         and bb = tea_shop and pr = asha_profile]
  from t[THEN conjunct2, THEN conjunct2, THEN conjunct1, THEN mp, OF hp]
       t[THEN conjunct2, THEN conjunct2, THEN conjunct2, THEN mp, OF hb]
  show ?thesis
    by (rule conjI)
qed

text \<open>
  The claim as it is written fails: with no session token in the request and no session
  in the datastore, both handlers create a row on behalf of the user id of the body.
\<close>

theorem create_without_session_counterexample:
  "create_post sample_env (post_as None hello_post) (sample_db\<lparr>user_sessions := []\<rparr>)
     = (Response 200
          (PostCreated \<lparr>post_id = ''id-9'', post_user_id = ''asha'', content = Some ''hello'',
                        image_url = None, youtube_url = None\<rparr>),
        sample_db\<lparr>user_sessions := [],
                  posts := [\<lparr>post_id = ''id-9'', post_user_id = ''asha'', content = Some ''hello'',
                             image_url = None, youtube_url = None\<rparr>]\<rparr>)
   \<and> fst (create_business sample_env (post_as None tea_shop) (sample_db\<lparr>user_sessions := []\<rparr>))
     = Response 200
         (BusinessCreated
            \<lparr>biz_id = ''id-9'', owner_id = ''asha'', biz_name = ''Tea shop'',
             biz_description = None, category = ''other'', biz_location = None, logo_url = None,
             cover_image_url = None, website_url = None, instagram_link = None,
             youtube_link = None, biz_approval_status = Some ''pending''\<rparr>)"
  by (simp add: create_post_def create_post_try_def create_post_checked_def insert_post_def
        create_business_def create_business_try_def insert_business_def text_or_null_def
        internal_error_def respond_def data_maybeSingle_def eq_id_def js_String.simps js_or_def
        hello_post_def tea_shop_def sample_defs)


section \<open>\<^verbatim>\<open>signup\<close>: the checks for duplicates and the rollback\<close>

lemma usernameRegex_nonempty: "usernameRegex_test (JStr n) \<Longrightarrow> n \<noteq> []"
  by (auto simp: usernameRegex_test_def)

lemma signup_request_outcome:
  assumes "signup_request rq b n"
  shows "mobile_auth e rq d =
           internal_error
             (if existingUser b d \<noteq> None
              then respond 400 (Error ''This mobile number is already registered'') d
              else if existingUsername (map to_lower n) d \<noteq> None
              then respond 400 (Error ''This username is already taken'') d
              else signup_inserts e b (map to_lower n) d)"
  using assms usernameRegex_nonempty[of n]
  by (simp add: signup_request_def mobile_auth_def mobile_auth_try_def signup_def try_js_def)

lemma internal_error_respond: "internal_error (respond c p d) = (Response c p, d)"
  by (simp add: internal_error_def respond_def)





lemma signup_rollback:
  assumes "signup_request rq b n"
      and "existingUser b d = None" and "existingUsername (map to_lower n) d = None"
      and "\<not> rejects_insert e ''user_credentials''" and "rejects_insert e ''profiles''"
  shows "mobile_auth e rq d
           = (Response 500 (Error ''Failed to create profile''),
              d\<lparr>user_credentials := filter (\<lambda>c. c_id c \<noteq> new_id e) (user_credentials d)\<rparr>)"
  using assms(2-)
  by (simp add: signup_request_outcome[OF assms(1)] signup_inserts_def Let_def
        internal_error_respond new_credentials_def)

lemma no_new_orphan_refl: "no_new_orphan d d"
  by (simp add: no_new_orphan_def)

lemma no_new_orphan_respond: "no_new_orphan d (snd (internal_error (respond c p d)))"
  by (simp add: internal_error_respond no_new_orphan_refl)

lemma no_new_orphan_inserts: "no_new_orphan d (snd (internal_error (signup_inserts e b n d)))"
  by (auto simp: signup_inserts_def Let_def internal_error_respond no_new_orphan_def
        profileData_def new_credentials_def)

lemma no_new_orphan_signup: "no_new_orphan d (snd (internal_error (signup e b d)))"
proof (cases "toLowerCase (ma_username b)")
  case (Inl t)
  then show ?thesis
    by (auto simp: signup_def try_js_def internal_error_respond internal_error_throw
          no_new_orphan_refl)
next
  case (Inr n)
  then show ?thesis
    by (auto simp: signup_def try_js_def internal_error_respond no_new_orphan_refl
          no_new_orphan_inserts)
qed

lemma no_new_orphan_signin: "no_new_orphan d (snd (internal_error (signin e b d)))"
  by (auto simp: signin_def internal_error_respond no_new_orphan_def split: option.splits)

lemma no_new_orphan_admin: "no_new_orphan d (snd (internal_error (admin_validate e b d)))"
  by (auto simp: admin_validate_def internal_error_respond no_new_orphan_refl split: option.splits)

lemma no_new_orphan_try: "no_new_orphan d (snd (internal_error (mobile_auth_try e b d)))"
  by (simp add: mobile_auth_try_def no_new_orphan_admin no_new_orphan_signup
        no_new_orphan_signin no_new_orphan_respond)

lemma no_new_orphan_mobile_auth: "no_new_orphan d (snd (mobile_auth e rq d))"
  by (cases "json rq")
     (simp_all add: mobile_auth_def no_new_orphan_try no_new_orphan_refl internal_error_throw)




text \<open>
  C10. When a sign-up passes its checks, the row of credentials is written and the
  datastore then refuses the profile, the handler deletes the credentials of the new id
  and answers 500 "Failed to create profile": no row of credentials of the new id
  remains, and the datastore is as it was before the request when the id is a new one.
  In general no request to the handler leaves a new row of credentials without a profile
  of its id.
\<close>

theorem signup_rolls_back_credentials:
  assumes "signup_request rq b n"
      and "existingUser b d = None" and "existingUsername (map to_lower n) d = None"
      and "\<not> rejects_insert e ''user_credentials''" and "rejects_insert e ''profiles''"
  shows "mobile_auth e rq d
           = (Response 500 (Error ''Failed to create profile''),
              d\<lparr>user_credentials := filter (\<lambda>c. c_id c \<noteq> new_id e) (user_credentials d)\<rparr>)
         \<and> new_id e \<notin> c_id ` set (user_credentials (snd (mobile_auth e rq d)))
         \<and> (new_id e \<notin> c_id ` set (user_credentials d) \<longrightarrow> snd (mobile_auth e rq d) = d)
         \<and> no_new_orphan d (snd (mobile_auth e rq d))"
proof -
  note r = signup_rollback[OF assms]
  have "filter (\<lambda>c. c_id c \<noteq> new_id e) (user_credentials d) = user_credentials d"
    if "new_id e \<notin> c_id ` set (user_credentials d)"
    using that by (force simp: filter_id_conv)
  then have "new_id e \<notin> c_id ` set (user_credentials d) \<longrightarrow> snd (mobile_auth e rq d) = d"
    by (simp add: r)
  moreover have "new_id e \<notin> c_id ` set (user_credentials (snd (mobile_auth e rq d)))"
    by (auto simp: r)
  ultimately show ?thesis
    using r no_new_orphan_mobile_auth[of d e rq] by simp
qed

theorem signup_rolls_back_credentials_witness:
  "signup_request (post_as None chitra_signup) chitra_signup ''Chitra_P''
   \<and> mobile_auth (sample_env\<lparr>rejects_insert := (\<lambda>t. t = ''profiles'')\<rparr>)
       (post_as None chitra_signup) sample_db
     = (Response 500 (Error ''Failed to create profile''), sample_db)"
proof -
  let ?e = "sample_env\<lparr>rejects_insert := (\<lambda>t. t = ''profiles'')\<rparr>"
  have r: "signup_request (post_as None chitra_signup) chitra_signup ''Chitra_P''"
    by (simp add: signup_request_def post_as_def chitra_signup_def usernameRegex_test_def
          username_char_def)
  have u: "existingUser chitra_signup sample_db = None"
    by (simp add: existingUser_def data_maybeSingle_def chitra_signup_def sample_db_def)
  have l: "map to_lower ''Chitra_P'' = ''chitra_p''"
    by code_simp
  have n: "existingUsername (map to_lower ''Chitra_P'') sample_db = None"
    unfolding l
    by (simp add: existingUsername_def data_maybeSingle_def sample_db_def
          asha_profile_def binu_profile_def)
  have c: "\<not> rejects_insert ?e ''user_credentials''" and p: "rejects_insert ?e ''profiles''"
    by simp_all
  have f: "new_id ?e \<notin> c_id ` set (user_credentials sample_db)"
    by (simp add: sample_env_def sample_db_def)
  from signup_rolls_back_credentials[OF r u n c p] f
  have "mobile_auth ?e (post_as None chitra_signup) sample_db
     = (Response 500 (Error ''Failed to create profile''), sample_db)"
    by (metis prod.collapse fst_conv snd_conv)
  with r show ?thesis
    by (rule conjI)
qed


end
